theory Spec2Isabelle
  imports Complex_Main
begin

section \<open>Go values: errors, panics, formatting\<close>

text \<open>
  A Go \<^verbatim>\<open>error\<close> is modelled by its message (what \<^verbatim>\<open>err.Error()\<close> prints): a value of
  type \<open>string option\<close> is a Go error that may be \<^verbatim>\<open>nil\<close> (\<open>None\<close>); a function returning
  \<^verbatim>\<open>(T, error)\<close> with exactly one of them set returns \<open>string + T\<close> (\<open>Inl\<close> the error).
  A run-time panic (a nil pointer dereference) is the value \<open>Panic\<close> of an \<open>outcome\<close>.
\<close>

datatype 'a outcome = Done 'a | Panic string

text \<open>\<^verbatim>\<open>%d\<close> of \<^verbatim>\<open>fmt\<close> and \<^verbatim>\<open>strconv.Atoi\<close>: decimal numerals of Go's 64-bit \<^verbatim>\<open>int\<close>.\<close>

definition digit_char :: "nat \<Rightarrow> char" where
  "digit_char d = ''0123456789'' ! d"

fun digits :: "nat \<Rightarrow> string" where
  "digits n = (if n < 10 then [digit_char n] else digits (n div 10) @ [digit_char (n mod 10)])"

declare digits.simps [simp del]

definition Itoa :: "int \<Rightarrow> string" where
  "Itoa i = (if i < 0 then CHR ''-'' # digits (nat (- i)) else digits (nat i))"

definition digit_val :: "char \<Rightarrow> nat option" where
  "digit_val c = (if c \<in> set ''0123456789'' then Some (of_char c - 48) else None)"

fun parse_digits :: "nat \<Rightarrow> string \<Rightarrow> nat option" where
  "parse_digits acc [] = Some acc"
| "parse_digits acc (c # cs) =
     (case digit_val c of None \<Rightarrow> None | Some d \<Rightarrow> parse_digits (10 * acc + d) cs)"

definition in_int64 :: "int \<Rightarrow> bool" where
  "in_int64 i = (- 9223372036854775808 \<le> i \<and> i \<le> 9223372036854775807)"

definition Atoi :: "string \<Rightarrow> string + int" where
  "Atoi s =
     (let (neg, ds) = (case s of c # cs \<Rightarrow> if c = CHR ''-'' then (True, cs)
                                          else if c = CHR ''+'' then (False, cs) else (False, s)
                               | [] \<Rightarrow> (False, s))
      in if ds = [] then Inl ''strconv.Atoi: invalid syntax''
         else (case parse_digits 0 ds of
                 None \<Rightarrow> Inl ''strconv.Atoi: invalid syntax''
               | Some n \<Rightarrow>
                   (let i = (if neg then - int n else int n)
                    in if in_int64 i then Inr i else Inl ''strconv.Atoi: value out of range'')))"

section \<open>Domain model (types.go, the variant with login)\<close>

text \<open>
  \<^verbatim>\<open>golang.org/x/crypto/bcrypt\<close> is a dependency, not code of the repository. It is
  modelled as an ideal salted hash: the digest of a stored credential is represented by
  the triple of cost, salt and Blowfish key it was computed from (two digests are equal
  exactly when these are), so the model has no accidental collisions. What is kept from
  the library is what its key schedule does deterministically: the key is the password
  followed by a NUL byte, read cyclically, and only its first 72 bytes are used;
  \<^verbatim>\<open>GenerateFromPassword\<close> refuses a password of more than 72 bytes,
  \<^verbatim>\<open>CompareHashAndPassword\<close> does not. A string that is no bcrypt hash is \<open>NotAHash\<close>.
  The salt drawn by \<^verbatim>\<open>GenerateFromPassword\<close> is an input of the model.
\<close>

datatype hashed = NotAHash string | Bcrypt nat string string

definition NUL :: char where
  "NUL = CHR 0x00"

definition bcrypt_key :: "string \<Rightarrow> string" where
  "bcrypt_key pw = take 72 (concat (replicate 72 (pw @ [NUL])))"

definition DefaultCost :: nat where
  "DefaultCost = 10"

definition GenerateFromPassword :: "string \<Rightarrow> string \<Rightarrow> nat \<Rightarrow> string + hashed" where
  "GenerateFromPassword salt pw cost =
     (if length pw > 72 then Inl ''bcrypt: password length exceeds 72 bytes''
      else Inr (Bcrypt cost salt (bcrypt_key pw)))"

definition CompareHashAndPassword :: "hashed \<Rightarrow> string \<Rightarrow> string option" where
  "CompareHashAndPassword h pw =
     (case h of
        NotAHash s \<Rightarrow> Some ''crypto/bcrypt: hashedSecret too short to be a bcrypted password''
      | Bcrypt c s k \<Rightarrow>
          if bcrypt_key pw = k then None
          else Some ''crypto/bcrypt: hashedPassword is not the hash of the given password'')"

text \<open>The struct \<^verbatim>\<open>Account\<close>; \<open>CreatedAt\<close> is a time in Unix seconds.\<close>

record Account =
  ID :: int
  FirstName :: string
  LastName :: string
  Number :: string
  EncryptedPassword :: hashed
  Balance :: int
  CreatedAt :: int

text \<open>
  What a call reads from outside the program: the environment variable
  \<^verbatim>\<open>JWT_SECRET\<close>, the clock (\<^verbatim>\<open>time.Now()\<close>, Unix seconds), the string
  \<^verbatim>\<open>uuid.NewString()\<close> returns and the salt bcrypt draws.
\<close>

record environ =
  JWT_SECRET :: string
  clock :: int
  fresh_uuid :: string
  fresh_salt :: string

definition ValidatePassword :: "Account \<Rightarrow> string \<Rightarrow> bool" where
  "ValidatePassword a pw = (CompareHashAndPassword (EncryptedPassword a) pw = None)"

definition NewAccount :: "environ \<Rightarrow> string \<Rightarrow> string \<Rightarrow> string \<Rightarrow> string + Account" where
  "NewAccount env firstName lastName password =
     (case GenerateFromPassword (fresh_salt env) password DefaultCost of
        Inl err \<Rightarrow> Inl err
      | Inr encpw \<Rightarrow>
          Inr \<lparr>ID = 0, FirstName = firstName, LastName = lastName,
               Number = fresh_uuid env, EncryptedPassword = encpw,
               Balance = 0, CreatedAt = clock env\<rparr>)"

record CreateAccountRequest =
  req_FirstName :: string
  req_LastName :: string
  req_Password :: string

record TransferRequest =
  ToAccount :: string
  Amount :: rat

record LoginRequest =
  login_Number :: string
  login_Password :: string

section \<open>Signed tokens (github.com/golang-jwt/jwt/v4, a dependency)\<close>

text \<open>
  The token library is modelled symbolically. A token string is either malformed or the
  encoding of an algorithm name, a claim map and a signature; an HMAC signature is
  represented by the algorithm, key and claims it was computed from, so it verifies
  exactly under that key for those claims. Claim validation follows \<^verbatim>\<open>MapClaims.Valid\<close> of
  version 4.5.0 (the version go.mod requires): each of \<^verbatim>\<open>exp\<close>, \<^verbatim>\<open>iat\<close>, \<^verbatim>\<open>nbf\<close> is
  optional, a numeric value \<open>0\<close> counts as absent, a token is expired unless the present
  time is strictly before \<^verbatim>\<open>exp\<close>, and a claim of another type fails. Times are Unix
  seconds: the library turns the number of a claim into a time and cuts it to whole
  seconds (\<^verbatim>\<open>newNumericDateFromSeconds\<close>, \<^verbatim>\<open>TimePrecision\<close> of one second), which is
  \<open>numeric_date\<close>. A number beyond the 64-bit range is converted in a way the Go
  specification leaves to the implementation; \<open>numeric_date\<close> does not model it, and
  \<^verbatim>\<open>createJWT\<close> issues none.
\<close>

datatype claim = CNum rat | CStr string

type_synonym MapClaims = "(string \<times> claim) list"

datatype signature = Garbage string | HMAC string string MapClaims

datatype token_string = Malformed string | Encoded string MapClaims signature

record Token =
  Token_Method :: string
  Token_Claims :: MapClaims
  Token_Valid :: bool

definition registered_methods :: "string list" where
  "registered_methods =
     [''HS256'', ''HS384'', ''HS512'', ''RS256'', ''RS384'', ''RS512'', ''PS256'', ''PS384'',
      ''PS512'', ''ES256'', ''ES384'', ''ES512'', ''EdDSA'', ''none'']"

definition SigningMethodHMAC :: "string list" where
  "SigningMethodHMAC = [''HS256'', ''HS384'', ''HS512'']"

definition numeric_date :: "rat \<Rightarrow> int" where
  "numeric_date f = \<lfloor>f\<rfloor>"

definition VerifyExpiresAt :: "MapClaims \<Rightarrow> int \<Rightarrow> bool" where
  "VerifyExpiresAt m now =
     (case map_of m ''exp'' of
        None \<Rightarrow> True
      | Some (CNum e) \<Rightarrow> if e = 0 then True else now < numeric_date e
      | Some (CStr s) \<Rightarrow> False)"

definition VerifyIssuedAt :: "MapClaims \<Rightarrow> int \<Rightarrow> bool" where
  "VerifyIssuedAt m now =
     (case map_of m ''iat'' of
        None \<Rightarrow> True
      | Some (CNum i) \<Rightarrow> if i = 0 then True else numeric_date i \<le> now
      | Some (CStr s) \<Rightarrow> False)"

definition VerifyNotBefore :: "MapClaims \<Rightarrow> int \<Rightarrow> bool" where
  "VerifyNotBefore m now =
     (case map_of m ''nbf'' of
        None \<Rightarrow> True
      | Some (CNum n) \<Rightarrow> if n = 0 then True else numeric_date n \<le> now
      | Some (CStr s) \<Rightarrow> False)"

definition claims_Valid :: "MapClaims \<Rightarrow> int \<Rightarrow> string option" where
  "claims_Valid m now =
     (if \<not> VerifyExpiresAt m now then Some ''Token is expired''
      else if \<not> VerifyIssuedAt m now then Some ''Token used before issued''
      else if \<not> VerifyNotBefore m now then Some ''Token is not valid yet''
      else None)"

text \<open>\<^verbatim>\<open>jwt.Parse(tokenString, keyFunc)\<close> at time \<open>now\<close>; \<open>keyFunc\<close> sees the token's method.\<close>

definition jwt_Parse :: "token_string \<Rightarrow> (string \<Rightarrow> string + string) \<Rightarrow> int \<Rightarrow> string + Token" where
  "jwt_Parse tokenString keyFunc now =
     (case tokenString of
        Malformed s \<Rightarrow> Inl ''token contains an invalid number of segments''
      | Encoded alg cl sg \<Rightarrow>
          if alg \<notin> set registered_methods then Inl ''signing method (alg) is unavailable.''
          else (case keyFunc alg of
                  Inl err \<Rightarrow> Inl err
                | Inr key \<Rightarrow>
                    (case claims_Valid cl now of
                       Some err \<Rightarrow> Inl err
                     | None \<Rightarrow>
                         if sg = HMAC alg key cl
                         then Inr \<lparr>Token_Method = alg, Token_Claims = cl, Token_Valid = True\<rparr>
                         else Inl ''signature is invalid'')))"

definition validateJWT :: "environ \<Rightarrow> token_string \<Rightarrow> string + Token" where
  "validateJWT env tokenString =
     jwt_Parse tokenString
       (\<lambda>alg. if alg \<in> set SigningMethodHMAC then Inr (JWT_SECRET env)
              else Inl (''unexpected signing method: '' @ alg))
       (clock env)"

definition createJWT :: "environ \<Rightarrow> Account \<Rightarrow> string + token_string" where
  "createJWT env account =
     (let claims = [(''accountNumber'', CStr (Number account)),
                    (''exp'', CNum (of_int (clock env + 60)))]
      in Inr (Encoded ''HS256'' claims (HMAC ''HS256'' (JWT_SECRET env) claims)))"

section \<open>JSON values and the response writer\<close>

text \<open>
  What \<^verbatim>\<open>encoding/json\<close> writes is kept as a tree. A struct is encoded field by field
  under the names of its \<^verbatim>\<open>json\<close> tags; the tag \<^verbatim>\<open>json:"-"\<close> of \<^verbatim>\<open>EncryptedPassword\<close>
  leaves that field out. A Go map is encoded with its keys sorted.
\<close>

datatype json =
    JNull
  | JInt int
  | JNum rat
  | JString string
  | JTime int
  | JToken token_string
  | JArray "json list"
  | JObject "(string \<times> json) list"

definition Account_json :: "Account \<Rightarrow> json" where
  "Account_json a =
     JObject [(''id'', JInt (ID a)), (''first_name'', JString (FirstName a)),
              (''last_name'', JString (LastName a)), (''number'', JString (Number a)),
              (''balance'', JInt (Balance a)), (''created_at'', JTime (CreatedAt a))]"

definition ApiError :: "string \<Rightarrow> json" where
  "ApiError msg = JObject [(''error'', JString msg)]"

definition LoginResponse :: "string \<Rightarrow> token_string \<Rightarrow> json" where
  "LoginResponse number token = JObject [(''number'', JString number), (''token'', JToken token)]"

text \<open>
  The \<^verbatim>\<open>http.ResponseWriter\<close> of the \<^verbatim>\<open>net/http\<close> server: \<open>status = 0\<close> until the header is
  written; the first \<^verbatim>\<open>WriteHeader\<close> wins and later ones are ignored; headers added after
  it are not sent; \<^verbatim>\<open>Write\<close> returns \<^verbatim>\<open>http.ErrBodyNotAllowed\<close> and sends nothing when the
  status (1xx, 204, 304) does not permit a body. \<open>body\<close> lists the values encoded into the
  response, in order.
\<close>

record ResponseWriter =
  status :: nat
  header :: "(string \<times> string) list"
  body :: "json list"

definition new_response :: ResponseWriter where
  "new_response = \<lparr>status = 0, header = [], body = []\<rparr>"

definition StatusOK :: nat where "StatusOK = 200"
definition StatusCreated :: nat where "StatusCreated = 201"
definition StatusNoContent :: nat where "StatusNoContent = 204"
definition StatusBadRequest :: nat where "StatusBadRequest = 400"
definition StatusForbidden :: nat where "StatusForbidden = 403"
definition StatusNotFound :: nat where "StatusNotFound = 404"

definition bodyAllowedForStatus :: "nat \<Rightarrow> bool" where
  "bodyAllowedForStatus st = (\<not> (100 \<le> st \<and> st \<le> 199) \<and> st \<noteq> 204 \<and> st \<noteq> 304)"

definition Header_Add :: "ResponseWriter \<Rightarrow> string \<Rightarrow> string \<Rightarrow> ResponseWriter" where
  "Header_Add w k v = (if status w = 0 then w\<lparr>header := header w @ [(k, v)]\<rparr> else w)"

definition WriteHeader :: "ResponseWriter \<Rightarrow> nat \<Rightarrow> ResponseWriter" where
  "WriteHeader w code = (if status w = 0 then w\<lparr>status := code\<rparr> else w)"

definition Write :: "ResponseWriter \<Rightarrow> json \<Rightarrow> ResponseWriter \<times> string option" where
  "Write w v =
     (let w' = (if status w = 0 then WriteHeader w StatusOK else w)
      in if bodyAllowedForStatus (status w') then (w'\<lparr>body := body w' @ [v]\<rparr>, None)
         else (w', Some ''http: request method or response status code does not allow body''))"

definition WriteJSON :: "ResponseWriter \<Rightarrow> nat \<Rightarrow> json \<Rightarrow> ResponseWriter \<times> string option" where
  "WriteJSON w st v =
     Write (WriteHeader (Header_Add w ''Content-Type'' ''application/json'') st) v"

section \<open>Persistence layer (the store with Transfer)\<close>

text \<open>
  The database behind \<^verbatim>\<open>database/sql\<close> is the table \<^verbatim>\<open>accounts\<close> (its rows in storage
  order), the sequence behind the \<^verbatim>\<open>serial\<close> column and the state of the connection:
  \<open>fault = Some e\<close> when a query cannot be carried out and fails with \<open>e\<close>.
  \<^verbatim>\<open>db.Query\<close> returns \<^verbatim>\<open>(*sql.Rows, error)\<close>: either an error together with a nil
  \<^verbatim>\<open>*sql.Rows\<close> (\<open>Inl\<close>), or the rows of the result (\<open>Inr\<close>). A statement is one atomic
  step. The columns \<^verbatim>\<open>id\<close> and \<^verbatim>\<open>balance\<close> are 32-bit integers, so the server takes the
  parameters compared or added to them as 32-bit integers and rejects the statement when
  a parameter is no whole number in that range or a new balance leaves it. A text
  parameter must not contain a NUL byte: the server rejects the statement otherwise. The
  strings of a request are decoded from JSON and so are well-formed UTF-8, which is what
  the server accepts besides; its limit on the length of a stored text is not modelled.
\<close>

record database =
  accounts :: "Account list"
  serial :: int
  fault :: "string option"

definition in_int4 :: "int \<Rightarrow> bool" where
  "in_int4 i = (- 2147483648 \<le> i \<and> i \<le> 2147483647)"

definition whole :: "rat \<Rightarrow> bool" where
  "whole a = (of_int \<lfloor>a\<rfloor> = a)"

definition valid_text :: "string \<Rightarrow> bool" where
  "valid_text t = (NUL \<notin> set t)"

text \<open>\<^verbatim>\<open>select * from accounts\<close>\<close>

definition Query_select :: "database \<Rightarrow> string + Account list" where
  "Query_select db = (case fault db of Some e \<Rightarrow> Inl e | None \<Rightarrow> Inr (accounts db))"

text \<open>\<^verbatim>\<open>select * from accounts where id = $1\<close>\<close>

definition Query_select_id :: "database \<Rightarrow> int \<Rightarrow> string + Account list" where
  "Query_select_id db i =
     (case fault db of
        Some e \<Rightarrow> Inl e
      | None \<Rightarrow>
          if \<not> in_int4 i then Inl ''pq: value is out of range for type integer''
          else Inr (filter (\<lambda>r. ID r = i) (accounts db)))"

text \<open>\<^verbatim>\<open>select * from accounts where number = $1\<close>\<close>

definition Query_select_number :: "database \<Rightarrow> string \<Rightarrow> string + Account list" where
  "Query_select_number db n =
     (case fault db of
        Some e \<Rightarrow> Inl e
      | None \<Rightarrow>
          if \<not> valid_text n then Inl ''pq: invalid byte sequence for encoding UTF8: 0x00''
          else Inr (filter (\<lambda>r. Number r = n) (accounts db)))"

text \<open>
  \<^verbatim>\<open>insert into accounts (first_name, last_name, number, encrypted_password, balance,
  created_at) values ($1, ..., $6)\<close>: the row gets the next value of the sequence as its id.
\<close>

definition Query_insert :: "database \<Rightarrow> Account \<Rightarrow> (string + unit list) \<times> database" where
  "Query_insert db acc =
     (case fault db of
        Some e \<Rightarrow> (Inl e, db)
      | None \<Rightarrow>
          if \<not> (valid_text (FirstName acc) \<and> valid_text (LastName acc) \<and> valid_text (Number acc))
          then (Inl ''pq: invalid byte sequence for encoding UTF8: 0x00'', db)
          else if \<not> in_int4 (Balance acc)
          then (Inl ''pq: value is out of range for type integer'', db)
          else (Inr [], db\<lparr>accounts := accounts db @ [acc\<lparr>ID := serial db\<rparr>],
                          serial := serial db + 1\<rparr>))"

text \<open>\<^verbatim>\<open>delete from accounts where id = $1 returning id\<close>\<close>

definition Query_delete :: "database \<Rightarrow> int \<Rightarrow> (string + int list) \<times> database" where
  "Query_delete db i =
     (case fault db of
        Some e \<Rightarrow> (Inl e, db)
      | None \<Rightarrow>
          if \<not> in_int4 i then (Inl ''pq: value is out of range for type integer'', db)
          else (Inr (map ID (filter (\<lambda>r. ID r = i) (accounts db))),
                db\<lparr>accounts := filter (\<lambda>r. ID r \<noteq> i) (accounts db)\<rparr>))"

text \<open>\<^verbatim>\<open>update accounts set balance = balance + $1 where number = $2 returning id\<close>\<close>

definition Query_update :: "database \<Rightarrow> rat \<Rightarrow> string \<Rightarrow> (string + int list) \<times> database" where
  "Query_update db amount n =
     (case fault db of
        Some e \<Rightarrow> (Inl e, db)
      | None \<Rightarrow>
          if \<not> valid_text n then (Inl ''pq: invalid byte sequence for encoding UTF8: 0x00'', db)
          else if \<not> whole amount then (Inl ''pq: invalid input syntax for type integer'', db)
          else if \<not> in_int4 \<lfloor>amount\<rfloor> then (Inl ''pq: value is out of range for type integer'', db)
          else if list_ex (\<lambda>r. Number r = n \<and> \<not> in_int4 (Balance r + \<lfloor>amount\<rfloor>)) (accounts db)
          then (Inl ''pq: integer out of range'', db)
          else (Inr (map ID (filter (\<lambda>r. Number r = n) (accounts db))),
                db\<lparr>accounts :=
                     map (\<lambda>r. if Number r = n then r\<lparr>Balance := Balance r + \<lfloor>amount\<rfloor>\<rparr> else r)
                       (accounts db)\<rparr>))"

text \<open>\<^verbatim>\<open>rows.Scan\<close> into the fields of a fresh \<^verbatim>\<open>Account\<close>; the rows of the table are typed.\<close>

definition scanIntoAccount :: "Account \<Rightarrow> string + Account" where
  "scanIntoAccount row = Inr row"

fun scan_rows :: "Account list \<Rightarrow> Account list \<Rightarrow> string + Account list" where
  "scan_rows accs [] = Inr accs"
| "scan_rows accs (row # rows) =
     (case scanIntoAccount row of
        Inl err \<Rightarrow> Inl err
      | Inr acc \<Rightarrow> scan_rows (accs @ [acc]) rows)"

definition GetAccounts :: "database \<Rightarrow> string + Account list" where
  "GetAccounts s =
     (case Query_select s of
        Inl err \<Rightarrow> Inl err
      | Inr rows \<Rightarrow> scan_rows [] rows)"

definition GetAccountByID :: "database \<Rightarrow> int \<Rightarrow> string + Account" where
  "GetAccountByID s i =
     (case Query_select_id s i of
        Inl err \<Rightarrow> Inl err
      | Inr [] \<Rightarrow> Inl (''account '' @ Itoa i @ '' not found'')
      | Inr (row # rows) \<Rightarrow> scanIntoAccount row)"

definition GetAccountByNumber :: "database \<Rightarrow> string \<Rightarrow> string + Account" where
  "GetAccountByNumber s number =
     (case Query_select_number s number of
        Inl err \<Rightarrow> Inl err
      | Inr [] \<Rightarrow> Inl (''account '' @ number @ '' not found'')
      | Inr (row # rows) \<Rightarrow> scanIntoAccount row)"

definition CreateAccount :: "database \<Rightarrow> Account \<Rightarrow> string option \<times> database" where
  "CreateAccount s acc =
     (case Query_insert s acc of
        (Inl err, s') \<Rightarrow> (Some err, s')
      | (Inr rows, s') \<Rightarrow> (None, s'))"

text \<open>
  \<^verbatim>\<open>DeleteAccount\<close> and \<^verbatim>\<open>Transfer\<close> do not look at \<^verbatim>\<open>err\<close> before \<^verbatim>\<open>rows.Next()\<close>: when the
  query failed, \<^verbatim>\<open>rows\<close> is nil and the call panics. The \<^verbatim>\<open>return 0, err\<close> after the loop is
  reached with \<^verbatim>\<open>err == nil\<close> only.
\<close>

definition DeleteAccount :: "database \<Rightarrow> int \<Rightarrow> ((int \<times> string option) \<times> database) outcome" where
  "DeleteAccount s i =
     (case Query_delete s i of
        (Inl err, s') \<Rightarrow> Panic ''runtime error: invalid memory address or nil pointer dereference''
      | (Inr [], s') \<Rightarrow> Done ((0, None), s')
      | (Inr (rid # rows), s') \<Rightarrow> Done ((rid, None), s'))"

definition Transfer :: "database \<Rightarrow> string \<Rightarrow> rat \<Rightarrow> ((int \<times> string option) \<times> database) outcome" where
  "Transfer s accountNumber amount =
     (case Query_update s amount accountNumber of
        (Inl err, s') \<Rightarrow> Panic ''runtime error: invalid memory address or nil pointer dereference''
      | (Inr [], s') \<Rightarrow> Done ((0, None), s')
      | (Inr (rid # rows), s') \<Rightarrow> Done ((rid, None), s'))"

section \<open>HTTP layer (the API server with the token middleware)\<close>

text \<open>
  Of a request a handler reads the method, the path variable \<^verbatim>\<open>id\<close>, the header
  \<^verbatim>\<open>x-jwt-token\<close> and the body. \<open>Body\<close> is what \<^verbatim>\<open>json.NewDecoder(r.Body).Decode\<close> gives
  for the request struct of the route: the decoding error or the decoded struct.
  A handler gets the store and the response writer and returns them updated; an
  \<^verbatim>\<open>apiFunc\<close> also returns its error. A handler that panics writes nothing.
\<close>

record 'b Request =
  Method :: string
  Vars_id :: string
  Header_jwt :: token_string
  Body :: "string + 'b"

type_synonym apiFunc_result = "(string option \<times> ResponseWriter \<times> database) outcome"

type_synonym 'b HandlerFunc =
  "database \<Rightarrow> ResponseWriter \<Rightarrow> 'b Request \<Rightarrow> (ResponseWriter \<times> database) outcome"

definition written :: "ResponseWriter \<times> string option \<Rightarrow> database \<Rightarrow> apiFunc_result" where
  "written we s = Done (snd we, fst we, s)"

definition getID :: "'b Request \<Rightarrow> string + int" where
  "getID r =
     (case Atoi (Vars_id r) of
        Inl err \<Rightarrow> Inl (''invalid id given '' @ Vars_id r)
      | Inr i \<Rightarrow> Inr i)"

definition handleLogin ::
  "environ \<Rightarrow> database \<Rightarrow> ResponseWriter \<Rightarrow> LoginRequest Request \<Rightarrow> apiFunc_result" where
  "handleLogin env s w r =
     (case Body r of
        Inl err \<Rightarrow> Done (Some err, w, s)
      | Inr req \<Rightarrow>
          (case GetAccountByNumber s (login_Number req) of
             Inl err \<Rightarrow> Done (Some err, w, s)
           | Inr acc \<Rightarrow>
               if \<not> ValidatePassword acc (login_Password req)
               then Done (Some ''not authenticated'', w, s)
               else (case createJWT env acc of
                       Inl err \<Rightarrow> Done (Some err, w, s)
                     | Inr token \<Rightarrow>
                         written (WriteJSON w StatusOK (LoginResponse (Number acc) token)) s)))"

definition handleGetAccounts ::
  "database \<Rightarrow> ResponseWriter \<Rightarrow> 'b Request \<Rightarrow> apiFunc_result" where
  "handleGetAccounts s w r =
     (case GetAccounts s of
        Inl err \<Rightarrow> Done (Some err, w, s)
      | Inr accs \<Rightarrow> written (WriteJSON w StatusOK (JArray (map Account_json accs))) s)"

definition handleAccountById ::
  "database \<Rightarrow> ResponseWriter \<Rightarrow> 'b Request \<Rightarrow> apiFunc_result" where
  "handleAccountById s w r =
     (case getID r of
        Inl err \<Rightarrow> Done (Some err, w, s)
      | Inr i \<Rightarrow>
          if Method r = ''GET'' then
            (case GetAccountByID s i of
               Inl err \<Rightarrow> Done (Some err, w, s)
             | Inr account \<Rightarrow> written (WriteJSON w StatusOK (Account_json account)) s)
          else if Method r = ''DELETE'' then
            (case DeleteAccount s i of
               Panic p \<Rightarrow> Panic p
             | Done ((i', Some err), s') \<Rightarrow> written (WriteJSON w StatusBadRequest (ApiError err)) s'
             | Done ((i', None), s') \<Rightarrow>
                 if i' = 0
                 then written (WriteJSON w StatusNotFound
                                 (ApiError (''account '' @ Itoa i' @ '' not found''))) s'
                 else written (WriteJSON w StatusNoContent (JObject [(''deleted'', JInt i')])) s')
          else Done (Some (''method not allowed '' @ Method r), w, s))"

definition handleCreateAccount ::
  "environ \<Rightarrow> database \<Rightarrow> ResponseWriter \<Rightarrow> CreateAccountRequest Request \<Rightarrow> apiFunc_result" where
  "handleCreateAccount env s w r =
     (case Body r of
        Inl err \<Rightarrow> Done (Some err, w, s)
      | Inr req \<Rightarrow>
          (case NewAccount env (req_FirstName req) (req_LastName req) (req_Password req) of
             Inl err \<Rightarrow> Done (Some err, w, s)
           | Inr account \<Rightarrow>
               (case CreateAccount s account of
                  (Some err, s') \<Rightarrow> Done (Some err, w, s')
                | (None, s') \<Rightarrow> written (WriteJSON w StatusCreated (Account_json account)) s')))"

definition handleAccount ::
  "environ \<Rightarrow> database \<Rightarrow> ResponseWriter \<Rightarrow> CreateAccountRequest Request \<Rightarrow> apiFunc_result" where
  "handleAccount env s w r =
     (if Method r = ''GET'' then handleGetAccounts s w r
      else if Method r = ''POST'' then handleCreateAccount env s w r
      else Done (Some (''method not allowed '' @ Method r), w, s))"

definition handleTrasfer ::
  "database \<Rightarrow> ResponseWriter \<Rightarrow> TransferRequest Request \<Rightarrow> apiFunc_result" where
  "handleTrasfer s w r =
     (case Body r of
        Inl err \<Rightarrow> Done (Some err, w, s)
      | Inr transferRequest \<Rightarrow>
          (case Transfer s (ToAccount transferRequest) (Amount transferRequest) of
             Panic p \<Rightarrow> Panic p
           | Done ((i, Some err), s') \<Rightarrow> written (WriteJSON w StatusBadRequest (ApiError err)) s'
           | Done ((i, None), s') \<Rightarrow>
               if i = 0
               then written (WriteJSON w StatusNotFound
                               (ApiError (''account not '' @ ToAccount transferRequest @ '' not found''))) s'
               else written (WriteJSON w StatusOK
                               (JObject [(''to'', JString (ToAccount transferRequest)),
                                         (''transfered'', JNum (Amount transferRequest))])) s'))"

definition makeHandleFunc ::
  "(database \<Rightarrow> ResponseWriter \<Rightarrow> 'b Request \<Rightarrow> apiFunc_result) \<Rightarrow> 'b HandlerFunc" where
  "makeHandleFunc f s w r =
     (case f s w r of
        Panic p \<Rightarrow> Panic p
      | Done (Some err, w', s') \<Rightarrow> Done (fst (WriteJSON w' StatusBadRequest (ApiError err)), s')
      | Done (None, w', s') \<Rightarrow> Done (w', s'))"

definition permissionDenied :: "ResponseWriter \<Rightarrow> ResponseWriter" where
  "permissionDenied w = fst (WriteJSON w StatusForbidden (ApiError ''permission denied''))"

definition withJWTAuth :: "'b HandlerFunc \<Rightarrow> environ \<Rightarrow> 'b HandlerFunc" where
  "withJWTAuth handlerFunc env s w r =
     (case validateJWT env (Header_jwt r) of
        Inl err \<Rightarrow> Done (fst (WriteJSON w StatusForbidden (ApiError ''invalid token'')), s)
      | Inr token \<Rightarrow>
          if \<not> Token_Valid token
          then Done (fst (WriteJSON w StatusForbidden (ApiError ''invalid token'')), s)
          else (case getID r of
                  Inl err \<Rightarrow> Done (permissionDenied w, s)
                | Inr userID \<Rightarrow>
                    (case GetAccountByID s userID of
                       Inl err \<Rightarrow> Done (permissionDenied w, s)
                     | Inr account \<Rightarrow>
                         if map_of (Token_Claims token) ''accountNumber'' \<noteq> Some (CStr (Number account))
                         then Done (permissionDenied w, s)
                         else handlerFunc s w r)))"

text \<open>
  The routes of \<^verbatim>\<open>Run\<close>. A route registered with \<^verbatim>\<open>Methods\<close> answers another method
  with status 405 and no body.
\<close>

definition Methods :: "string list \<Rightarrow> 'b HandlerFunc \<Rightarrow> 'b HandlerFunc" where
  "Methods ms h s w r = (if Method r \<in> set ms then h s w r else Done (WriteHeader w 405, s))"

definition route_login :: "environ \<Rightarrow> LoginRequest HandlerFunc" where
  "route_login env = Methods [''POST''] (makeHandleFunc (handleLogin env))"

definition route_accounts :: "environ \<Rightarrow> CreateAccountRequest HandlerFunc" where
  "route_accounts env = Methods [''GET'', ''POST''] (makeHandleFunc (handleAccount env))"

definition route_accounts_id :: "environ \<Rightarrow> 'b HandlerFunc" where
  "route_accounts_id env =
     Methods [''GET'', ''DELETE''] (withJWTAuth (makeHandleFunc handleAccountById) env)"

definition route_transfer :: "TransferRequest HandlerFunc" where
  "route_transfer = Methods [''POST''] (makeHandleFunc handleTrasfer)"

section \<open>An example store\<close>

text \<open>Concrete data for the closed instances of the theorems below.\<close>

definition anna :: Account where
  "anna = \<lparr>ID = 1, FirstName = ''Anna'', LastName = ''Adler'', Number = ''acc-anna'',
            EncryptedPassword = Bcrypt 10 ''salt-a'' (bcrypt_key ''secret''),
            Balance = 5, CreatedAt = 100\<rparr>"

definition bert :: Account where
  "bert = \<lparr>ID = 2, FirstName = ''Bert'', LastName = ''Brandt'', Number = ''acc-bert'',
            EncryptedPassword = Bcrypt 10 ''salt-b'' (bcrypt_key ''hunter2''),
            Balance = 0, CreatedAt = 200\<rparr>"

definition bank :: database where
  "bank = \<lparr>accounts = [anna, bert], serial = 3, fault = None\<rparr>"

definition env0 :: environ where
  "env0 = \<lparr>JWT_SECRET = ''k'', clock = 1000, fresh_uuid = ''acc-new'', fresh_salt = ''salt-c''\<rparr>"

definition request :: "string \<Rightarrow> string \<Rightarrow> unit Request" where
  "request m i = \<lparr>Method = m, Vars_id = i, Header_jwt = Malformed [], Body = Inl ''EOF''\<rparr>"

definition anna_token :: token_string where
  "anna_token =
     Encoded ''HS256'' [(''accountNumber'', CStr ''acc-anna''), (''exp'', CNum 1060)]
       (HMAC ''HS256'' ''k'' [(''accountNumber'', CStr ''acc-anna''), (''exp'', CNum 1060)])"

definition request_with :: "string \<Rightarrow> string \<Rightarrow> token_string \<Rightarrow> unit Request" where
  "request_with m i t = \<lparr>Method = m, Vars_id = i, Header_jwt = t, Body = Inl ''EOF''\<rparr>"

section \<open>Causes of an authentication failure\<close>

text \<open>
  The failure causes the specification lists for a request to a protected route, as
  properties of the request, the clock, the secret and the store: the token string is
  malformed; its \<^verbatim>\<open>exp\<close> claim is not after the present time; its signature is not the
  server's for its content; no account has the id of the path; the account with that id
  has another number than the token's \<^verbatim>\<open>accountNumber\<close> claim.
\<close>

datatype cause = MalformedToken | ExpiredToken | SignatureMismatch | IdNotFound | NumberMismatch

definition has_cause :: "environ \<Rightarrow> database \<Rightarrow> 'b Request \<Rightarrow> cause \<Rightarrow> bool" where
  "has_cause env s r c =
     (case c of
        MalformedToken \<Rightarrow>
          (case Header_jwt r of Malformed x \<Rightarrow> True | Encoded alg cl sg \<Rightarrow> False)
      | ExpiredToken \<Rightarrow>
          (case Header_jwt r of
             Malformed x \<Rightarrow> False
           | Encoded alg cl sg \<Rightarrow>
               (case map_of cl ''exp'' of
                  Some (CNum e) \<Rightarrow> e \<noteq> 0 \<and> e \<le> of_int (clock env)
                | Some (CStr x) \<Rightarrow> False
                | None \<Rightarrow> False))
      | SignatureMismatch \<Rightarrow>
          (case Header_jwt r of
             Malformed x \<Rightarrow> False
           | Encoded alg cl sg \<Rightarrow> sg \<noteq> HMAC alg (JWT_SECRET env) cl)
      | IdNotFound \<Rightarrow>
          (case getID r of Inl err \<Rightarrow> False | Inr i \<Rightarrow> i \<notin> ID ` set (accounts s))
      | NumberMismatch \<Rightarrow>
          (case (getID r, Header_jwt r) of
             (Inr i, Encoded alg cl sg) \<Rightarrow>
               (case filter (\<lambda>a. ID a = i) (accounts s) of
                  [] \<Rightarrow> False
                | a # as \<Rightarrow> map_of cl ''accountNumber'' \<noteq> Some (CStr (Number a)))
           | _ \<Rightarrow> False))"

section \<open>Sequences of store operations\<close>

text \<open>
  The calls of the \<^verbatim>\<open>Storage\<close> interface and the store each leaves behind: the three
  reads leave it as it is, and so does a call that fails or panics.
\<close>

datatype store_call =
    Call_GetAccounts
  | Call_GetAccountByID int
  | Call_GetAccountByNumber string
  | Call_CreateAccount Account
  | Call_DeleteAccount int
  | Call_Transfer string rat

definition store_after :: "store_call \<Rightarrow> database \<Rightarrow> database" where
  "store_after c s =
     (case c of
        Call_GetAccounts \<Rightarrow> s
      | Call_GetAccountByID i \<Rightarrow> s
      | Call_GetAccountByNumber n \<Rightarrow> s
      | Call_CreateAccount acc \<Rightarrow> snd (CreateAccount s acc)
      | Call_DeleteAccount i \<Rightarrow> (case DeleteAccount s i of Done (res, s') \<Rightarrow> s' | Panic p \<Rightarrow> s)
      | Call_Transfer n amount \<Rightarrow> (case Transfer s n amount of Done (res, s') \<Rightarrow> s' | Panic p \<Rightarrow> s))"

definition listing :: "CreateAccountRequest Request" where
  "listing = \<lparr>Method = ''GET'', Vars_id = [], Header_jwt = Malformed [], Body = Inl ''EOF''\<rparr>"

definition transfer_request :: "string \<Rightarrow> rat \<Rightarrow> TransferRequest Request" where
  "transfer_request n a =
     \<lparr>Method = ''POST'', Vars_id = [], Header_jwt = Malformed [],
      Body = Inr \<lparr>ToAccount = n, Amount = a\<rparr>\<rparr>"

definition login_request :: "string \<Rightarrow> string \<Rightarrow> LoginRequest Request" where
  "login_request n p =
     \<lparr>Method = ''POST'', Vars_id = [], Header_jwt = Malformed [],
      Body = Inr \<lparr>login_Number = n, login_Password = p\<rparr>\<rparr>"

section \<open>What a client sees\<close>

text \<open>
  The response of a handler without the store it leaves behind, and the store with every
  stored credential replaced (by \<open>g\<close> of the account).
\<close>

definition response :: "(ResponseWriter \<times> database) outcome \<Rightarrow> ResponseWriter outcome" where
  "response out = (case out of Done (w, s) \<Rightarrow> Done w | Panic p \<Rightarrow> Panic p)"

definition visible :: "apiFunc_result \<Rightarrow> (string option \<times> ResponseWriter) outcome" where
  "visible out = (case out of Done (err, w, s) \<Rightarrow> Done (err, w) | Panic p \<Rightarrow> Panic p)"

definition rehash :: "(Account \<Rightarrow> hashed) \<Rightarrow> database \<Rightarrow> database" where
  "rehash g s = s\<lparr>accounts := map (\<lambda>a. a\<lparr>EncryptedPassword := g a\<rparr>) (accounts s)\<rparr>"


definition carl :: Account where
  "carl = \<lparr>ID = 0, FirstName = ''Carl'', LastName = ''Cole'',
            Number = ''123e4567-e89b-12d3-a456-426614174000'',
            EncryptedPassword = Bcrypt 10 ''salt-c'' (bcrypt_key ''pw''),
            Balance = 0, CreatedAt = 1000\<rparr>"


definition resalt :: "Account \<Rightarrow> hashed" where
  "resalt a =
     (case EncryptedPassword a of
        NotAHash x \<Rightarrow> NotAHash x
      | Bcrypt c s k \<Rightarrow> Bcrypt c ''pepper'' k)"

section \<open>Verified properties\<close>

lemmas http_defs = WriteJSON_def Write_def WriteHeader_def Header_Add_def
  bodyAllowedForStatus_def StatusOK_def StatusCreated_def StatusNoContent_def
  StatusBadRequest_def StatusForbidden_def StatusNotFound_def new_response_def written_def

lemma Itoa_0: "Itoa 0 = ''0''"
  by code_simp

subsection \<open>The message of a failed delete\<close>

text \<open>
  C10. When \<^verbatim>\<open>DELETE /accounts/{id}\<close> takes the not-found branch, that is, the store
  returns the identifier 0, the response is 404 and its message is
  \<^verbatim>\<open>account 0 not found\<close> whatever id was requested: the handler assigns the store's
  result to \<^verbatim>\<open>id\<close> before it formats the message.
\<close>

theorem delete_not_found_message_embeds_zero:
  assumes "getID r = Inr i" and "Method r = ''DELETE''"
    and "DeleteAccount s i = Done ((0, err), s')"
  shows "makeHandleFunc handleAccountById s new_response r =
           Done (\<lparr>status = 404, header = [(''Content-Type'', ''application/json'')],
                   body = [JObject [(''error'', JString ''account 0 not found'')]]\<rparr>, s')"
proof -
  have "err = None"
    using assms(3) by (auto simp: DeleteAccount_def split: prod.splits sum.splits list.splits)
  with assms show ?thesis
    by (simp add: makeHandleFunc_def handleAccountById_def Itoa_0 ApiError_def http_defs)
qed

theorem delete_not_found_message_embeds_zero_witness:
  "getID (request ''DELETE'' ''7'') = Inr 7 \<and> Method (request ''DELETE'' ''7'') = ''DELETE''
   \<and> DeleteAccount bank 7 = Done ((0, None), bank)
   \<and> makeHandleFunc handleAccountById bank new_response (request ''DELETE'' ''7'') =
           Done (\<lparr>status = 404, header = [(''Content-Type'', ''application/json'')],
                   body = [JObject [(''error'', JString ''account 0 not found'')]]\<rparr>, bank)"
proof -
  have h1: "getID (request ''DELETE'' ''7'') = Inr 7" by code_simp
  have h2: "Method (request ''DELETE'' ''7'') = ''DELETE''" by (simp add: request_def)
  have h3: "DeleteAccount bank 7 = Done ((0, None), bank)" by code_simp
  show ?thesis
    using h1 h2 h3 delete_not_found_message_embeds_zero [OF h1 h2 h3] by simp
qed

subsection \<open>Failing queries\<close>

text \<open>
  C6. Every operation of the persistence layer returns an error when its query fails,
  and none crashes. This fails for \<^verbatim>\<open>DeleteAccount\<close> and \<^verbatim>\<open>Transfer\<close>: with the
  connection refused they call \<^verbatim>\<open>rows.Next()\<close> on the nil \<^verbatim>\<open>rows\<close> and panic, where
  \<^verbatim>\<open>GetAccountByID\<close> on the same store returns the error.
\<close>

theorem failed_query_panics:
  "DeleteAccount (bank\<lparr>fault := Some ''connection refused''\<rparr>) 1 =
     Panic ''runtime error: invalid memory address or nil pointer dereference''
   \<and> Transfer (bank\<lparr>fault := Some ''connection refused''\<rparr>) ''acc-anna'' 10 =
     Panic ''runtime error: invalid memory address or nil pointer dereference''
   \<and> GetAccountByID (bank\<lparr>fault := Some ''connection refused''\<rparr>) 1 = Inl ''connection refused''"
  by (simp add: DeleteAccount_def Transfer_def GetAccountByID_def Query_delete_def Query_update_def
      Query_select_id_def)

subsection \<open>Lookups and the token middleware\<close>

lemma GetAccountByID_missing:
  "i \<notin> ID ` set (accounts s) \<Longrightarrow>
   GetAccountByID s i =
     Inl (case fault s of Some e \<Rightarrow> e
          | None \<Rightarrow> if in_int4 i then ''account '' @ Itoa i @ '' not found''
                    else ''pq: value is out of range for type integer'')"
proof -
  assume "i \<notin> ID ` set (accounts s)"
  then have "filter (\<lambda>r. ID r = i) (accounts s) = []"
    by (auto simp: filter_empty_conv)
  then show ?thesis
    by (simp add: GetAccountByID_def Query_select_id_def split: option.splits)
qed

lemma GetAccountByID_found:
  "GetAccountByID s i = Inr a \<Longrightarrow>
   fault s = None \<and> in_int4 i \<and> filter (\<lambda>r. ID r = i) (accounts s) \<noteq> [] \<and>
   a = hd (filter (\<lambda>r. ID r = i) (accounts s))"
  by (auto simp: GetAccountByID_def Query_select_id_def scanIntoAccount_def
      split: option.splits if_splits list.splits)

lemma validateJWT_Valid: "validateJWT env t = Inr tok \<Longrightarrow> Token_Valid tok"
  by (auto simp: validateJWT_def jwt_Parse_def
      split: token_string.splits if_splits sum.splits option.splits)

lemma validateJWT_Claims:
  "validateJWT env t = Inr tok \<Longrightarrow>
   \<exists>alg sg. t = Encoded alg (Token_Claims tok) sg \<and> sg = HMAC alg (JWT_SECRET env) (Token_Claims tok)
     \<and> VerifyExpiresAt (Token_Claims tok) (clock env)"
  by (auto simp: validateJWT_def jwt_Parse_def claims_Valid_def
      split: token_string.splits if_splits sum.splits option.splits)

lemma withJWTAuth_invalid:
  "validateJWT env (Header_jwt r) = Inl e \<Longrightarrow>
   withJWTAuth h env s new_response r =
     Done (\<lparr>status = 403, header = [(''Content-Type'', ''application/json'')],
             body = [JObject [(''error'', JString ''invalid token'')]]\<rparr>, s)"
  by (simp add: withJWTAuth_def ApiError_def http_defs)

lemma withJWTAuth_bad_id:
  assumes "validateJWT env (Header_jwt r) = Inr tok" and "getID r = Inl e"
  shows "withJWTAuth h env s new_response r =
     Done (\<lparr>status = 403, header = [(''Content-Type'', ''application/json'')],
             body = [JObject [(''error'', JString ''permission denied'')]]\<rparr>, s)"
  using assms validateJWT_Valid [OF assms(1)]
  by (simp add: withJWTAuth_def permissionDenied_def ApiError_def http_defs)

lemma withJWTAuth_no_account:
  assumes "validateJWT env (Header_jwt r) = Inr tok" and "getID r = Inr i"
    and "GetAccountByID s i = Inl e"
  shows "withJWTAuth h env s new_response r =
     Done (\<lparr>status = 403, header = [(''Content-Type'', ''application/json'')],
             body = [JObject [(''error'', JString ''permission denied'')]]\<rparr>, s)"
  using assms validateJWT_Valid [OF assms(1)]
  by (simp add: withJWTAuth_def permissionDenied_def ApiError_def http_defs)

lemma withJWTAuth_mismatch:
  assumes "validateJWT env (Header_jwt r) = Inr tok" and "getID r = Inr i"
    and "GetAccountByID s i = Inr a"
    and "map_of (Token_Claims tok) ''accountNumber'' \<noteq> Some (CStr (Number a))"
  shows "withJWTAuth h env s new_response r =
     Done (\<lparr>status = 403, header = [(''Content-Type'', ''application/json'')],
             body = [JObject [(''error'', JString ''permission denied'')]]\<rparr>, s)"
  using assms validateJWT_Valid [OF assms(1)]
  by (simp add: withJWTAuth_def permissionDenied_def ApiError_def http_defs)

lemma withJWTAuth_pass:
  assumes "validateJWT env (Header_jwt r) = Inr tok" and "getID r = Inr i"
    and "GetAccountByID s i = Inr a"
    and "map_of (Token_Claims tok) ''accountNumber'' = Some (CStr (Number a))"
  shows "withJWTAuth h env s w r = h s w r"
  using assms validateJWT_Valid [OF assms(1)]
  by (simp add: withJWTAuth_def)

subsection \<open>Authentication failures\<close>

lemma numeric_date_passed: "e \<le> of_int now \<Longrightarrow> \<not> now < numeric_date e"
proof -
  assume "e \<le> of_int now"
  then have "\<lfloor>e\<rfloor> \<le> \<lfloor>of_int now :: rat\<rfloor>" by (rule floor_mono)
  then show ?thesis by (simp add: numeric_date_def)
qed

lemma token_cause_rejected:
  assumes "has_cause env s r c" and "c \<in> {MalformedToken, ExpiredToken, SignatureMismatch}"
  shows "isl (validateJWT env (Header_jwt r))"
proof (rule ccontr)
  assume "\<not> isl (validateJWT env (Header_jwt r))"
  then obtain tok where ok: "validateJWT env (Header_jwt r) = Inr tok"
    by (cases "validateJWT env (Header_jwt r)") auto
  from validateJWT_Claims [OF ok] obtain alg sg where
    enc: "Header_jwt r = Encoded alg (Token_Claims tok) sg"
    and sg: "sg = HMAC alg (JWT_SECRET env) (Token_Claims tok)"
    and ex: "VerifyExpiresAt (Token_Claims tok) (clock env)"
    by blast
  from assms(2) consider "c = MalformedToken" | "c = ExpiredToken" | "c = SignatureMismatch"
    by auto
  then show False
  proof cases
    case 1
    with assms(1) enc show False by (simp add: has_cause_def)
  next
    case 2
    with assms(1) enc ex show False
      by (auto simp: has_cause_def VerifyExpiresAt_def dest: numeric_date_passed
          split: option.splits claim.splits if_splits)
  next
    case 3
    with assms(1) enc sg show False by (simp add: has_cause_def)
  qed
qed

text \<open>
  C3 (as the code has it). For every request to the token middleware and every failure
  cause (malformed token, expired token, signature mismatch, id not found, number
  mismatch) the response is 403 and the protected handler \<open>h\<close> is not invoked: the result
  does not depend on \<open>h\<close>, and the store is unchanged. The body is one of two: a request
  whose token does not validate gets \<^verbatim>\<open>invalid token\<close> (the first three causes always
  do), a request with a valid token gets \<^verbatim>\<open>permission denied\<close>.
\<close>

theorem auth_failure_forbidden:
  assumes "has_cause env s r c"
  shows "withJWTAuth h env s new_response r =
           Done (\<lparr>status = 403, header = [(''Content-Type'', ''application/json'')],
                   body = [JObject [(''error'',
                             JString (if isl (validateJWT env (Header_jwt r))
                                      then ''invalid token'' else ''permission denied''))]]\<rparr>, s)
         \<and> (c \<in> {MalformedToken, ExpiredToken, SignatureMismatch}
              \<longrightarrow> isl (validateJWT env (Header_jwt r)))"
proof (cases "validateJWT env (Header_jwt r)")
  case (Inl e)
  then show ?thesis
    using withJWTAuth_invalid [OF Inl, of h s] by simp
next
  case (Inr tok)
  then have notl: "\<not> isl (validateJWT env (Header_jwt r))" by simp
  with token_cause_rejected [OF assms]
  have c: "c = IdNotFound \<or> c = NumberMismatch"
    by (cases c) auto
  have "withJWTAuth h env s new_response r =
     Done (\<lparr>status = 403, header = [(''Content-Type'', ''application/json'')],
             body = [JObject [(''error'', JString ''permission denied'')]]\<rparr>, s)"
  proof (cases "getID r")
    case (Inl e)
    then show ?thesis by (rule withJWTAuth_bad_id [OF Inr])
  next
    case i: (Inr i)
    show ?thesis
    proof (cases "GetAccountByID s i")
      case (Inl e)
      then show ?thesis by (rule withJWTAuth_no_account [OF Inr i])
    next
      case a: (Inr a)
      note found = GetAccountByID_found [OF a]
      from found have "i \<in> ID ` set (accounts s)"
        by (auto simp: filter_empty_conv)
      with c assms i have nm: "has_cause env s r NumberMismatch"
        by (auto simp: has_cause_def)
      from validateJWT_Claims [OF Inr] obtain alg sg where
        enc: "Header_jwt r = Encoded alg (Token_Claims tok) sg" by blast
      from nm i enc found
      have "map_of (Token_Claims tok) ''accountNumber'' \<noteq> Some (CStr (Number a))"
        by (auto simp: has_cause_def split: list.splits)
      then show ?thesis by (rule withJWTAuth_mismatch [OF Inr i a])
    qed
  qed
  with notl token_cause_rejected [OF assms] show ?thesis by auto
qed

theorem auth_failure_forbidden_witness:
  "has_cause env0 bank (request_with ''GET'' ''2'' anna_token) NumberMismatch
   \<and> withJWTAuth (makeHandleFunc handleAccountById) env0 bank new_response
         (request_with ''GET'' ''2'' anna_token) =
       Done (\<lparr>status = 403, header = [(''Content-Type'', ''application/json'')],
               body = [JObject [(''error'', JString ''permission denied'')]]\<rparr>, bank)"
proof -
  have h: "has_cause env0 bank (request_with ''GET'' ''2'' anna_token) NumberMismatch"
    by code_simp
  have v: "\<not> isl (validateJWT env0 (Header_jwt (request_with ''GET'' ''2'' anna_token)))"
    by code_simp
  show ?thesis
    using h v auth_failure_forbidden [OF h, of "makeHandleFunc handleAccountById"] by simp
qed

text \<open>
  C3 as stated fails: a malformed token and a number mismatch are answered with
  different bodies, so the two causes can be told apart.
\<close>

theorem auth_failure_bodies_differ_counterexample:
  "has_cause env0 bank (request ''GET'' ''1'') MalformedToken
   \<and> has_cause env0 bank (request_with ''GET'' ''2'' anna_token) NumberMismatch
   \<and> withJWTAuth (makeHandleFunc handleAccountById) env0 bank new_response (request ''GET'' ''1'') =
       Done (\<lparr>status = 403, header = [(''Content-Type'', ''application/json'')],
               body = [JObject [(''error'', JString ''invalid token'')]]\<rparr>, bank)
   \<and> withJWTAuth (makeHandleFunc handleAccountById) env0 bank new_response
         (request_with ''GET'' ''2'' anna_token) =
       Done (\<lparr>status = 403, header = [(''Content-Type'', ''application/json'')],
               body = [JObject [(''error'', JString ''permission denied'')]]\<rparr>, bank)"
  by code_simp

subsection \<open>GET of an account that does not exist\<close>

lemma withJWTAuth_unknown_id:
  assumes "getID r = Inr i" and "i \<notin> ID ` set (accounts s)"
  shows "withJWTAuth h env s new_response r =
           Done (\<lparr>status = 403, header = [(''Content-Type'', ''application/json'')],
                   body = [JObject [(''error'',
                             JString (if isl (validateJWT env (Header_jwt r))
                                      then ''invalid token'' else ''permission denied''))]]\<rparr>, s)"
proof (cases "validateJWT env (Header_jwt r)")
  case (Inl e)
  then show ?thesis using withJWTAuth_invalid [OF Inl, of h s] by simp
next
  case (Inr tok)
  show ?thesis
    using withJWTAuth_no_account [OF Inr assms(1) GetAccountByID_missing [OF assms(2)], of h] Inr
    by simp
qed

lemma handler_get_missing:
  assumes "getID r = Inr i" and "Method r = ''GET''" and "i \<notin> ID ` set (accounts s)"
  shows "makeHandleFunc handleAccountById s new_response r =
           Done (\<lparr>status = 400, header = [(''Content-Type'', ''application/json'')],
                   body = [JObject [(''error'',
                             JString (case fault s of
                                        Some e \<Rightarrow> e
                                      | None \<Rightarrow>
                                          if in_int4 i then ''account '' @ Itoa i @ '' not found''
                                          else ''pq: value is out of range for type integer''))]]\<rparr>, s)"
  using assms GetAccountByID_missing [OF assms(3)]
  by (simp add: makeHandleFunc_def handleAccountById_def ApiError_def http_defs)

text \<open>
  C4 (as the code has it). For every id that no account of the store has,
  \<^verbatim>\<open>GET /accounts/{id}\<close> is answered by the handler with status 400: \<^verbatim>\<open>GetAccountByID\<close>
  returns an error and \<^verbatim>\<open>makeHandleFunc\<close> turns every error of a handler into a 400
  (with the message \<^verbatim>\<open>account <id> not found\<close> when the query itself succeeds). Behind
  the token middleware of the route the handler is not reached at all and the response
  is 403. It is 404 in neither case.
\<close>

theorem get_missing_account_bad_request:
  assumes "getID r = Inr i" and "Method r = ''GET''" and "i \<notin> ID ` set (accounts s)"
  shows "makeHandleFunc handleAccountById s new_response r =
           Done (\<lparr>status = 400, header = [(''Content-Type'', ''application/json'')],
                   body = [JObject [(''error'',
                             JString (case fault s of
                                        Some e \<Rightarrow> e
                                      | None \<Rightarrow>
                                          if in_int4 i then ''account '' @ Itoa i @ '' not found''
                                          else ''pq: value is out of range for type integer''))]]\<rparr>, s)
         \<and> route_accounts_id env s new_response r =
           Done (\<lparr>status = 403, header = [(''Content-Type'', ''application/json'')],
                   body = [JObject [(''error'',
                             JString (if isl (validateJWT env (Header_jwt r))
                                      then ''invalid token'' else ''permission denied''))]]\<rparr>, s)"
proof -
  have "route_accounts_id env s new_response r =
          withJWTAuth (makeHandleFunc handleAccountById) env s new_response r"
    using assms(2) by (simp add: route_accounts_id_def Methods_def)
  then show ?thesis
    using handler_get_missing [OF assms] withJWTAuth_unknown_id [OF assms(1,3)] by simp
qed

theorem get_missing_account_bad_request_witness:
  "getID (request ''GET'' ''7'') = Inr 7 \<and> Method (request ''GET'' ''7'') = ''GET''
   \<and> 7 \<notin> ID ` set (accounts bank)
   \<and> makeHandleFunc handleAccountById bank new_response (request ''GET'' ''7'') =
           Done (\<lparr>status = 400, header = [(''Content-Type'', ''application/json'')],
                   body = [JObject [(''error'', JString ''account 7 not found'')]]\<rparr>, bank)
   \<and> route_accounts_id env0 bank new_response (request ''GET'' ''7'') =
           Done (\<lparr>status = 403, header = [(''Content-Type'', ''application/json'')],
                   body = [JObject [(''error'', JString ''invalid token'')]]\<rparr>, bank)"
proof -
  have h1: "getID (request ''GET'' ''7'') = Inr 7" by code_simp
  have h2: "Method (request ''GET'' ''7'') = ''GET''" by (simp add: request_def)
  have h3: "7 \<notin> ID ` set (accounts bank)" by (simp add: bank_def anna_def bert_def)
  have h4: "isl (validateJWT env0 (Header_jwt (request ''GET'' ''7'')))" by code_simp
  have h5: "fault bank = None" "in_int4 7" "Itoa 7 = ''7''" by code_simp+
  show ?thesis
    using h1 h2 h3 h4 h5 get_missing_account_bad_request [OF h1 h2 h3, of env0] by simp
qed

text \<open>C4 as stated fails: no account has id 7, and the response is 400, or 403 on the route.\<close>

theorem get_missing_account_counterexample:
  "map ID (accounts bank) = [1, 2]
   \<and> makeHandleFunc handleAccountById bank new_response (request ''GET'' ''7'') =
        Done (\<lparr>status = 400, header = [(''Content-Type'', ''application/json'')],
                body = [JObject [(''error'', JString ''account 7 not found'')]]\<rparr>, bank)
   \<and> route_accounts_id env0 bank new_response (request_with ''GET'' ''7'' anna_token) =
        Done (\<lparr>status = 403, header = [(''Content-Type'', ''application/json'')],
                body = [JObject [(''error'', JString ''permission denied'')]]\<rparr>, bank)"
  by code_simp

subsection \<open>Deleting an account\<close>

lemma scan_rows_all: "scan_rows accs rows = Inr (accs @ rows)"
  by (induction rows arbitrary: accs) (simp_all add: scanIntoAccount_def)

lemma GetAccounts_ok: "fault s = None \<Longrightarrow> GetAccounts s = Inr (accounts s)"
  by (simp add: GetAccounts_def Query_select_def scan_rows_all)

lemma DeleteAccount_ok:
  assumes "fault s = None" and "in_int4 i"
  shows "DeleteAccount s i =
           Done ((if i \<in> ID ` set (accounts s) then i else 0, None),
                 s\<lparr>accounts := filter (\<lambda>a. ID a \<noteq> i) (accounts s)\<rparr>)"
proof (cases "filter (\<lambda>r. ID r = i) (accounts s)")
  case Nil
  then have "i \<notin> ID ` set (accounts s)" by (auto simp: filter_empty_conv)
  with Nil assms show ?thesis by (simp add: DeleteAccount_def Query_delete_def)
next
  case (Cons a as)
  then have "a \<in> set (filter (\<lambda>r. ID r = i) (accounts s))" by simp
  then have "ID a = i" "i \<in> ID ` set (accounts s)" by auto
  with Cons assms show ?thesis by (simp add: DeleteAccount_def Query_delete_def)
qed

lemma filter_others_id:
  "i \<notin> ID ` set xs \<Longrightarrow> filter (\<lambda>a. ID a \<noteq> i) xs = xs"
  by (induction xs) auto

lemma handler_delete_missing:
  assumes "getID r = Inr i" and "Method r = ''DELETE''" and "i \<notin> ID ` set (accounts s)"
    and "fault s = None" and "in_int4 i"
  shows "makeHandleFunc handleAccountById s new_response r =
           Done (\<lparr>status = 404, header = [(''Content-Type'', ''application/json'')],
                   body = [JObject [(''error'', JString ''account 0 not found'')]]\<rparr>, s)"
  using assms DeleteAccount_ok [OF assms(4,5)] filter_others_id [OF assms(3)]
  by (simp add: makeHandleFunc_def handleAccountById_def Itoa_0 ApiError_def http_defs)

lemma handler_delete_existing:
  assumes "getID r = Inr i" and "Method r = ''DELETE''" and "i \<in> ID ` set (accounts s)"
    and "i \<noteq> 0" and "fault s = None" and "in_int4 i"
  shows "makeHandleFunc handleAccountById s new_response r =
           Done (\<lparr>status = 204, header = [(''Content-Type'', ''application/json'')], body = []\<rparr>,
                 s\<lparr>accounts := filter (\<lambda>a. ID a \<noteq> i) (accounts s)\<rparr>)"
  using assms DeleteAccount_ok [OF assms(5,6)]
  by (simp add: makeHandleFunc_def handleAccountById_def ApiError_def http_defs)

lemma route_accounts_listing:
  assumes "Method r = ''GET''" and "fault s = None"
  shows "route_accounts env s new_response r =
           Done (\<lparr>status = 200, header = [(''Content-Type'', ''application/json'')],
                   body = [JArray (map Account_json (accounts s))]\<rparr>, s)"
  using assms GetAccounts_ok [OF assms(2)]
  by (simp add: route_accounts_def Methods_def makeHandleFunc_def handleAccount_def
      handleGetAccounts_def http_defs)

lemma store_after_fresh_id:
  assumes "i \<notin> ID ` set (accounts s)" and "i < serial s"
  shows "i \<notin> ID ` set (accounts (store_after c s)) \<and> i < serial (store_after c s)"
proof (cases c)
  case (Call_CreateAccount acc)
  with assms show ?thesis
    by (auto simp: store_after_def CreateAccount_def Query_insert_def split: option.splits)
next
  case (Call_DeleteAccount j)
  with assms show ?thesis
    by (auto simp: store_after_def DeleteAccount_def Query_delete_def
        split: option.splits list.splits)
next
  case (Call_Transfer n amount)
  with assms show ?thesis
    by (auto simp: store_after_def Transfer_def Query_update_def
        split: option.splits list.splits)
qed (use assms in \<open>simp_all add: store_after_def\<close>)

lemma fold_store_after_fresh_id:
  "i \<notin> ID ` set (accounts s) \<Longrightarrow> i < serial s \<Longrightarrow>
   i \<notin> ID ` set (accounts (fold store_after cs s)) \<and> i < serial (fold store_after cs s)"
proof (induction cs arbitrary: s)
  case Nil
  then show ?case by simp
next
  case (Cons c cs)
  from store_after_fresh_id [OF Cons.prems, of c] Cons.IH [of "store_after c s"]
  show ?case by simp
qed

lemma store_after_fault: "fault (store_after c s) = fault s"
  by (cases c)
    (auto simp: store_after_def CreateAccount_def Query_insert_def DeleteAccount_def
      Query_delete_def Transfer_def Query_update_def split: option.splits list.splits)

lemma fold_store_after_fault: "fault (fold store_after cs s) = fault s"
  by (induction cs arbitrary: s) (simp_all add: store_after_fault)

text \<open>
  C2 (as the code has it). For \<^verbatim>\<open>DELETE /accounts/{id}\<close>:
  on the route an id that no account has is answered 403 by the token middleware, which
  looks the account up before the handler runs; the handler itself answers such an id
  with 404 (when the query succeeds). For the id of an account (not 0) the handler
  answers with status 204 and removes the account; no account of that id is in the
  store after any further store operations, and \<^verbatim>\<open>GET /accounts\<close> then lists exactly
  the accounts of that store (ids below the sequence are not assigned again). With a
  valid token of that account the route behaves as the handler.
\<close>

theorem delete_account_responses:
  assumes "getID r = Inr i" and "Method r = ''DELETE''"
  shows "(i \<notin> ID ` set (accounts s) \<longrightarrow>
            route_accounts_id env s new_response r =
              Done (\<lparr>status = 403, header = [(''Content-Type'', ''application/json'')],
                      body = [JObject [(''error'',
                                JString (if isl (validateJWT env (Header_jwt r))
                                         then ''invalid token'' else ''permission denied''))]]\<rparr>, s))
       \<and> (i \<notin> ID ` set (accounts s) \<and> fault s = None \<and> in_int4 i \<longrightarrow>
            makeHandleFunc handleAccountById s new_response r =
              Done (\<lparr>status = 404, header = [(''Content-Type'', ''application/json'')],
                      body = [JObject [(''error'', JString ''account 0 not found'')]]\<rparr>, s))
       \<and> (i \<in> ID ` set (accounts s) \<and> i \<noteq> 0 \<and> fault s = None \<and> in_int4 i \<longrightarrow>
            (case makeHandleFunc handleAccountById s new_response r of
               Panic p \<Rightarrow> False
             | Done (w', s') \<Rightarrow>
                 status w' = 204
                 \<and> s' = s\<lparr>accounts := filter (\<lambda>a. ID a \<noteq> i) (accounts s)\<rparr>
                 \<and> i \<notin> ID ` set (accounts s')
                 \<and> (i < serial s \<and> Method r' = ''GET'' \<longrightarrow>
                      i \<notin> ID ` set (accounts (fold store_after cs s'))
                      \<and> route_accounts env (fold store_after cs s') new_response r' =
                          Done (\<lparr>status = 200, header = [(''Content-Type'', ''application/json'')],
                                  body = [JArray (map Account_json
                                            (accounts (fold store_after cs s')))]\<rparr>,
                                fold store_after cs s'))))
       \<and> (validateJWT env (Header_jwt r) = Inr tok \<and> GetAccountByID s i = Inr a
            \<and> map_of (Token_Claims tok) ''accountNumber'' = Some (CStr (Number a)) \<longrightarrow>
            route_accounts_id env s new_response r =
              makeHandleFunc handleAccountById s new_response r)"
proof -
  have route: "route_accounts_id env s new_response r =
                 withJWTAuth (makeHandleFunc handleAccountById) env s new_response r"
    using assms(2) by (simp add: route_accounts_id_def Methods_def)
  have c1: "i \<notin> ID ` set (accounts s) \<longrightarrow>
            route_accounts_id env s new_response r =
              Done (\<lparr>status = 403, header = [(''Content-Type'', ''application/json'')],
                      body = [JObject [(''error'',
                                JString (if isl (validateJWT env (Header_jwt r))
                                         then ''invalid token'' else ''permission denied''))]]\<rparr>, s)"
    using withJWTAuth_unknown_id [OF assms(1)] route by simp
  have c2: "i \<notin> ID ` set (accounts s) \<and> fault s = None \<and> in_int4 i \<longrightarrow>
            makeHandleFunc handleAccountById s new_response r =
              Done (\<lparr>status = 404, header = [(''Content-Type'', ''application/json'')],
                      body = [JObject [(''error'', JString ''account 0 not found'')]]\<rparr>, s)"
    using handler_delete_missing [OF assms] by simp
  have c3: "i \<in> ID ` set (accounts s) \<and> i \<noteq> 0 \<and> fault s = None \<and> in_int4 i \<longrightarrow>
            (case makeHandleFunc handleAccountById s new_response r of
               Panic p \<Rightarrow> False
             | Done (w', s') \<Rightarrow>
                 status w' = 204
                 \<and> s' = s\<lparr>accounts := filter (\<lambda>a. ID a \<noteq> i) (accounts s)\<rparr>
                 \<and> i \<notin> ID ` set (accounts s')
                 \<and> (i < serial s \<and> Method r' = ''GET'' \<longrightarrow>
                      i \<notin> ID ` set (accounts (fold store_after cs s'))
                      \<and> route_accounts env (fold store_after cs s') new_response r' =
                          Done (\<lparr>status = 200, header = [(''Content-Type'', ''application/json'')],
                                  body = [JArray (map Account_json
                                            (accounts (fold store_after cs s')))]\<rparr>,
                                fold store_after cs s')))"
  proof
    assume h: "i \<in> ID ` set (accounts s) \<and> i \<noteq> 0 \<and> fault s = None \<and> in_int4 i"
    define s' where "s' = s\<lparr>accounts := filter (\<lambda>a. ID a \<noteq> i) (accounts s)\<rparr>"
    have del: "makeHandleFunc handleAccountById s new_response r =
                 Done (\<lparr>status = 204, header = [(''Content-Type'', ''application/json'')],
                         body = []\<rparr>, s')"
      unfolding s'_def using handler_delete_existing [OF assms] h by simp
    have gone: "i \<notin> ID ` set (accounts s')"
      by (auto simp: s'_def)
    have later: "i \<notin> ID ` set (accounts (fold store_after cs s'))
                 \<and> route_accounts env (fold store_after cs s') new_response r' =
                          Done (\<lparr>status = 200, header = [(''Content-Type'', ''application/json'')],
                                  body = [JArray (map Account_json
                                            (accounts (fold store_after cs s')))]\<rparr>,
                                fold store_after cs s')"
      if "i < serial s" and get: "Method r' = ''GET''"
    proof -
      have "i < serial s'" using that by (simp add: s'_def)
      from fold_store_after_fresh_id [OF gone this]
      have a: "i \<notin> ID ` set (accounts (fold store_after cs s'))" by simp
      have "fault (fold store_after cs s') = fault s'"
        by (rule fold_store_after_fault)
      then have "fault (fold store_after cs s') = None" using h by (simp add: s'_def)
      from route_accounts_listing [OF get this] a show ?thesis by simp
    qed
    show "case makeHandleFunc handleAccountById s new_response r of
               Panic p \<Rightarrow> False
             | Done (w', s') \<Rightarrow>
                 status w' = 204
                 \<and> s' = s\<lparr>accounts := filter (\<lambda>a. ID a \<noteq> i) (accounts s)\<rparr>
                 \<and> i \<notin> ID ` set (accounts s')
                 \<and> (i < serial s \<and> Method r' = ''GET'' \<longrightarrow>
                      i \<notin> ID ` set (accounts (fold store_after cs s'))
                      \<and> route_accounts env (fold store_after cs s') new_response r' =
                          Done (\<lparr>status = 200, header = [(''Content-Type'', ''application/json'')],
                                  body = [JArray (map Account_json
                                            (accounts (fold store_after cs s')))]\<rparr>,
                                fold store_after cs s'))"
      using del gone later unfolding s'_def [symmetric] by (simp add: s'_def [symmetric])
  qed
  have c4: "validateJWT env (Header_jwt r) = Inr tok \<and> GetAccountByID s i = Inr a
            \<and> map_of (Token_Claims tok) ''accountNumber'' = Some (CStr (Number a)) \<longrightarrow>
            route_accounts_id env s new_response r =
              makeHandleFunc handleAccountById s new_response r"
    using withJWTAuth_pass [OF _ assms(1)] route by auto
  from c1 c2 c3 c4 show ?thesis by (intro conjI)
qed

theorem delete_account_responses_witness:
  "getID (request_with ''DELETE'' ''1'' anna_token) = Inr 1
   \<and> Method (request_with ''DELETE'' ''1'' anna_token) = ''DELETE''
   \<and> 1 \<in> ID ` set (accounts bank) \<and> fault bank = None \<and> in_int4 1 \<and> 1 < serial bank
   \<and> Method listing = ''GET''
   \<and> validateJWT env0 (Header_jwt (request_with ''DELETE'' ''1'' anna_token)) =
       Inr \<lparr>Token_Method = ''HS256'',
            Token_Claims = [(''accountNumber'', CStr ''acc-anna''), (''exp'', CNum 1060)],
            Token_Valid = True\<rparr>
   \<and> GetAccountByID bank 1 = Inr anna
   \<and> route_accounts_id env0 bank new_response (request_with ''DELETE'' ''1'' anna_token) =
       Done (\<lparr>status = 204, header = [(''Content-Type'', ''application/json'')], body = []\<rparr>,
             bank\<lparr>accounts := [bert]\<rparr>)
   \<and> route_accounts env0 (fold store_after [Call_Transfer ''acc-bert'' 3] (bank\<lparr>accounts := [bert]\<rparr>))
         new_response listing =
       Done (\<lparr>status = 200, header = [(''Content-Type'', ''application/json'')],
               body = [JArray [Account_json (bert\<lparr>Balance := 3\<rparr>)]]\<rparr>,
             bank\<lparr>accounts := [bert\<lparr>Balance := 3\<rparr>]\<rparr>)
   \<and> route_accounts_id env0 bank new_response (request_with ''DELETE'' ''1'' anna_token) =
       makeHandleFunc handleAccountById bank new_response (request_with ''DELETE'' ''1'' anna_token)
   \<and> getID (request ''DELETE'' ''7'') = Inr 7 \<and> Method (request ''DELETE'' ''7'') = ''DELETE''
   \<and> 7 \<notin> ID ` set (accounts bank) \<and> in_int4 7
   \<and> makeHandleFunc handleAccountById bank new_response (request ''DELETE'' ''7'') =
       Done (\<lparr>status = 404, header = [(''Content-Type'', ''application/json'')],
               body = [JObject [(''error'', JString ''account 0 not found'')]]\<rparr>, bank)
   \<and> route_accounts_id env0 bank new_response (request ''DELETE'' ''7'') =
       Done (\<lparr>status = 403, header = [(''Content-Type'', ''application/json'')],
               body = [JObject [(''error'', JString ''invalid token'')]]\<rparr>, bank)"
proof -
  have a1: "getID (request_with ''DELETE'' ''1'' anna_token) = Inr 1" by code_simp
  have a2: "Method (request_with ''DELETE'' ''1'' anna_token) = ''DELETE''"
    by (simp add: request_with_def)
  have a3: "1 \<in> ID ` set (accounts bank)" "7 \<notin> ID ` set (accounts bank)"
    by (simp_all add: bank_def anna_def bert_def)
  have a4: "fault bank = None" "in_int4 1" "1 < serial bank" "Method listing = ''GET''" "in_int4 7"
    by code_simp+
  have a5: "validateJWT env0 (Header_jwt (request_with ''DELETE'' ''1'' anna_token)) =
       Inr \<lparr>Token_Method = ''HS256'',
            Token_Claims = [(''accountNumber'', CStr ''acc-anna''), (''exp'', CNum 1060)],
            Token_Valid = True\<rparr>"
    by code_simp
  have a6: "GetAccountByID bank 1 = Inr anna" by code_simp
  have b1: "getID (request ''DELETE'' ''7'') = Inr 7" by code_simp
  have b2: "Method (request ''DELETE'' ''7'') = ''DELETE''" by (simp add: request_def)
  have c1: "route_accounts_id env0 bank new_response (request_with ''DELETE'' ''1'' anna_token) =
       Done (\<lparr>status = 204, header = [(''Content-Type'', ''application/json'')], body = []\<rparr>,
             bank\<lparr>accounts := [bert]\<rparr>)"
    by code_simp
  have c2: "route_accounts env0 (fold store_after [Call_Transfer ''acc-bert'' 3] (bank\<lparr>accounts := [bert]\<rparr>))
         new_response listing =
       Done (\<lparr>status = 200, header = [(''Content-Type'', ''application/json'')],
               body = [JArray [Account_json (bert\<lparr>Balance := 3\<rparr>)]]\<rparr>,
             bank\<lparr>accounts := [bert\<lparr>Balance := 3\<rparr>]\<rparr>)"
    by code_simp
  have c3: "isl (validateJWT env0 (Header_jwt (request ''DELETE'' ''7'')))" by code_simp
  note t1 = delete_account_responses [OF a1 a2, where s = bank and env = env0 and a = anna
      and tok = "\<lparr>Token_Method = ''HS256'',
            Token_Claims = [(''accountNumber'', CStr ''acc-anna''), (''exp'', CNum 1060)],
            Token_Valid = True\<rparr>"]
  note t2 = delete_account_responses [OF b1 b2, where s = bank and env = env0]
  from t2 a3 a4 c3
  have d1: "makeHandleFunc handleAccountById bank new_response (request ''DELETE'' ''7'') =
       Done (\<lparr>status = 404, header = [(''Content-Type'', ''application/json'')],
               body = [JObject [(''error'', JString ''account 0 not found'')]]\<rparr>, bank)"
    and d2: "route_accounts_id env0 bank new_response (request ''DELETE'' ''7'') =
       Done (\<lparr>status = 403, header = [(''Content-Type'', ''application/json'')],
               body = [JObject [(''error'', JString ''invalid token'')]]\<rparr>, bank)"
    by simp_all
  have "map_of [(''accountNumber'', CStr ''acc-anna''), (''exp'', CNum 1060)] ''accountNumber'' =
          Some (CStr (Number anna))"
    by (simp add: anna_def)
  with t1 a5 a6
  have e1: "route_accounts_id env0 bank new_response (request_with ''DELETE'' ''1'' anna_token) =
       makeHandleFunc handleAccountById bank new_response (request_with ''DELETE'' ''1'' anna_token)"
    by simp
  show ?thesis
    using a1 a2 a3 a4 a5 a6 b1 b2 c1 c2 d1 d2 e1 by simp
qed

text \<open>
  C2 as stated fails twice: with a valid token the route answers the id 7, which no
  account has, with 403; and the response to deleting account 1 has status 204 and no
  body, since a 204 response cannot carry one.
\<close>

theorem delete_account_counterexample:
  "map ID (accounts bank) = [1, 2]
   \<and> route_accounts_id env0 bank new_response (request_with ''DELETE'' ''7'' anna_token) =
       Done (\<lparr>status = 403, header = [(''Content-Type'', ''application/json'')],
               body = [JObject [(''error'', JString ''permission denied'')]]\<rparr>, bank)
   \<and> route_accounts_id env0 bank new_response (request_with ''DELETE'' ''1'' anna_token) =
       Done (\<lparr>status = 204, header = [(''Content-Type'', ''application/json'')], body = []\<rparr>,
             bank\<lparr>accounts := [bert]\<rparr>)"
  by code_simp

subsection \<open>Transfers\<close>

lemma map_others_number:
  "n \<notin> Number ` set xs \<Longrightarrow> map (\<lambda>a. if Number a = n then f a else a) xs = xs"
  by (induction xs) auto

lemma Transfer_ok:
  assumes "fault s = None" and "whole amount" and "in_int4 \<lfloor>amount\<rfloor>"
    and "\<forall>a\<in>set (accounts s). Number a = n \<longrightarrow> in_int4 (Balance a + \<lfloor>amount\<rfloor>)"
    and "NUL \<notin> set n"
  shows "Transfer s n amount =
           Done ((case filter (\<lambda>a. Number a = n) (accounts s) of [] \<Rightarrow> 0 | a # as \<Rightarrow> ID a, None),
                 s\<lparr>accounts := map (\<lambda>a. if Number a = n then a\<lparr>Balance := Balance a + \<lfloor>amount\<rfloor>\<rparr>
                                       else a) (accounts s)\<rparr>)"
proof -
  have "\<not> list_ex (\<lambda>r. Number r = n \<and> \<not> in_int4 (Balance r + \<lfloor>amount\<rfloor>)) (accounts s)"
    using assms(4) by (auto simp: list_ex_iff)
  with assms(1-3,5) show ?thesis
    by (simp add: Transfer_def Query_update_def valid_text_def split: list.splits)
qed

text \<open>
  C1 (as the code has it). The column \<^verbatim>\<open>balance\<close> holds integers. For every transfer
  request with destination number N and an amount A that is a whole number, when the
  statement is accepted (the connection works, N contains no NUL byte, A and the new
  balances are 32-bit integers) and no account has the id 0: if an account with number
  N exists,
  \<^verbatim>\<open>POST /transfer\<close> returns 200 echoing the amount and the destination, every
  account with number N has its balance increased by exactly A and nothing else in the
  store changes; if no account has number N, \<^verbatim>\<open>Transfer\<close> returns the identifier 0, the
  handler responds 404 and the store is unchanged.
\<close>

theorem transfer_credits_destination:
  assumes "Body r = Inr \<lparr>ToAccount = N, Amount = A\<rparr>" and "Method r = ''POST''"
    and "fault s = None" and "whole (A)" and "in_int4 \<lfloor>A\<rfloor>"
    and "\<forall>a\<in>set (accounts s). Number a = N \<longrightarrow> in_int4 (Balance a + \<lfloor>A\<rfloor>)"
    and "0 \<notin> ID ` set (accounts s)" and "NUL \<notin> set N"
  shows "of_int \<lfloor>A\<rfloor> = A
       \<and> (N \<in> Number ` set (accounts s) \<longrightarrow>
            route_transfer s new_response r =
              Done (\<lparr>status = 200, header = [(''Content-Type'', ''application/json'')],
                      body = [JObject [(''to'', JString (N)),
                                       (''transfered'', JNum (A))]]\<rparr>,
                    s\<lparr>accounts :=
                        map (\<lambda>a. if Number a = N
                                 then a\<lparr>Balance := Balance a + \<lfloor>A\<rfloor>\<rparr> else a)
                          (accounts s)\<rparr>))
       \<and> (N \<notin> Number ` set (accounts s) \<longrightarrow>
            Transfer s (N) (A) = Done ((0, None), s)
            \<and> route_transfer s new_response r =
              Done (\<lparr>status = 404, header = [(''Content-Type'', ''application/json'')],
                      body = [JObject [(''error'',
                                JString (''account not '' @ N @ '' not found''))]]\<rparr>, s))"
proof -
  note tr = Transfer_ok [OF assms(3-6,8)]
  have route: "route_transfer s new_response r = makeHandleFunc handleTrasfer s new_response r"
    using assms(2) by (simp add: route_transfer_def Methods_def)
  have whole: "of_int \<lfloor>A\<rfloor> = A"
    using assms(4) by (simp add: whole_def)
  have found: "route_transfer s new_response r =
              Done (\<lparr>status = 200, header = [(''Content-Type'', ''application/json'')],
                      body = [JObject [(''to'', JString (N)),
                                       (''transfered'', JNum (A))]]\<rparr>,
                    s\<lparr>accounts :=
                        map (\<lambda>a. if Number a = N
                                 then a\<lparr>Balance := Balance a + \<lfloor>A\<rfloor>\<rparr> else a)
                          (accounts s)\<rparr>)"
    if "N \<in> Number ` set (accounts s)"
  proof -
    from that obtain a as where
      hit: "filter (\<lambda>a. Number a = N) (accounts s) = a # as"
      by (cases "filter (\<lambda>a. Number a = N) (accounts s)")
        (auto simp: filter_empty_conv)
    then have "a \<in> set (filter (\<lambda>a. Number a = N) (accounts s))" by simp
    then have "a \<in> set (accounts s)" by simp
    with assms(7) have "ID a \<noteq> 0" by force
    with tr hit assms(1) show ?thesis
      unfolding route
      by (simp add: makeHandleFunc_def handleTrasfer_def http_defs)
  qed
  have missing: "Transfer s (N) (A) = Done ((0, None), s)
            \<and> route_transfer s new_response r =
              Done (\<lparr>status = 404, header = [(''Content-Type'', ''application/json'')],
                      body = [JObject [(''error'',
                                JString (''account not '' @ N @ '' not found''))]]\<rparr>, s)"
    if "N \<notin> Number ` set (accounts s)"
  proof -
    from that have "\<forall>x\<in>set (accounts s). Number x \<noteq> N"
      by (metis imageI)
    then have "filter (\<lambda>a. Number a = N) (accounts s) = []"
      by (simp add: filter_empty_conv)
    with tr map_others_number [OF that] assms(1) show ?thesis
      unfolding route
      by (simp add: makeHandleFunc_def handleTrasfer_def ApiError_def http_defs)
  qed
  from whole found missing show ?thesis by blast
qed

theorem transfer_credits_destination_witness:
  "Body (transfer_request ''acc-bert'' 3) = Inr \<lparr>ToAccount = ''acc-bert'', Amount = 3\<rparr>
   \<and> Method (transfer_request ''acc-bert'' 3) = ''POST''
   \<and> fault bank = None \<and> whole 3 \<and> in_int4 \<lfloor>3 :: rat\<rfloor> \<and> 0 \<notin> ID ` set (accounts bank)
   \<and> NUL \<notin> set ''acc-bert'' \<and> NUL \<notin> set ''acc-carl''
   \<and> ''acc-bert'' \<in> Number ` set (accounts bank)
   \<and> route_transfer bank new_response (transfer_request ''acc-bert'' 3) =
       Done (\<lparr>status = 200, header = [(''Content-Type'', ''application/json'')],
               body = [JObject [(''to'', JString ''acc-bert''), (''transfered'', JNum 3)]]\<rparr>,
             bank\<lparr>accounts := [anna, bert\<lparr>Balance := 3\<rparr>]\<rparr>)
   \<and> ''acc-carl'' \<notin> Number ` set (accounts bank)
   \<and> route_transfer bank new_response (transfer_request ''acc-carl'' 3) =
       Done (\<lparr>status = 404, header = [(''Content-Type'', ''application/json'')],
               body = [JObject [(''error'', JString ''account not acc-carl not found'')]]\<rparr>, bank)"
proof -
  have a1: "Body (transfer_request ''acc-bert'' 3) = Inr \<lparr>ToAccount = ''acc-bert'', Amount = 3\<rparr>"
    and a2: "Method (transfer_request ''acc-bert'' 3) = ''POST''"
    and b1: "Body (transfer_request ''acc-carl'' 3) = Inr \<lparr>ToAccount = ''acc-carl'', Amount = 3\<rparr>"
    and b2: "Method (transfer_request ''acc-carl'' 3) = ''POST''"
    by (simp_all add: transfer_request_def)
  have a3: "fault bank = None" by (simp add: bank_def)
  have a4: "whole 3" and a5: "in_int4 \<lfloor>3 :: rat\<rfloor>"
    by (simp_all add: whole_def in_int4_def)
  have a6: "\<forall>a\<in>set (accounts bank). Number a = ''acc-bert'' \<longrightarrow> in_int4 (Balance a + \<lfloor>3 :: rat\<rfloor>)"
    and b6: "\<forall>a\<in>set (accounts bank). Number a = ''acc-carl'' \<longrightarrow> in_int4 (Balance a + \<lfloor>3 :: rat\<rfloor>)"
    by (simp_all add: bank_def anna_def bert_def in_int4_def)
  have a7: "0 \<notin> ID ` set (accounts bank)"
    and a8: "''acc-bert'' \<in> Number ` set (accounts bank)"
    and b8: "''acc-carl'' \<notin> Number ` set (accounts bank)"
    by (simp_all add: bank_def anna_def bert_def)
  have a9: "NUL \<notin> set ''acc-bert''" and b9: "NUL \<notin> set ''acc-carl''"
    by (simp_all add: NUL_def)
  have m: "bank\<lparr>accounts :=
                 map (\<lambda>a. if Number a = ''acc-bert'' then a\<lparr>Balance := Balance a + \<lfloor>3 :: rat\<rfloor>\<rparr> else a)
                   (accounts bank)\<rparr> = bank\<lparr>accounts := [anna, bert\<lparr>Balance := 3\<rparr>]\<rparr>"
    by (simp add: bank_def anna_def bert_def)
  note t1 = transfer_credits_destination [OF a1 a2 a3 a4 a5 a6 a7 a9]
  note t2 = transfer_credits_destination [OF b1 b2 a3 a4 a5 b6 a7 b9]
  from t1 a8
  have "route_transfer bank new_response (transfer_request ''acc-bert'' 3) =
       Done (\<lparr>status = 200, header = [(''Content-Type'', ''application/json'')],
               body = [JObject [(''to'', JString ''acc-bert''), (''transfered'', JNum 3)]]\<rparr>,
             bank\<lparr>accounts :=
                 map (\<lambda>a. if Number a = ''acc-bert'' then a\<lparr>Balance := Balance a + \<lfloor>3 :: rat\<rfloor>\<rparr> else a)
                   (accounts bank)\<rparr>)"
    by blast
  then have c1: "route_transfer bank new_response (transfer_request ''acc-bert'' 3) =
       Done (\<lparr>status = 200, header = [(''Content-Type'', ''application/json'')],
               body = [JObject [(''to'', JString ''acc-bert''), (''transfered'', JNum 3)]]\<rparr>,
             bank\<lparr>accounts := [anna, bert\<lparr>Balance := 3\<rparr>]\<rparr>)"
    unfolding m .
  from t2 b8
  have c2: "route_transfer bank new_response (transfer_request ''acc-carl'' 3) =
       Done (\<lparr>status = 404, header = [(''Content-Type'', ''application/json'')],
               body = [JObject [(''error'', JString ''account not acc-carl not found'')]]\<rparr>, bank)"
    by simp
  from a1 a2 a3 a4 a5 a7 a9 b9 a8 b8 c1 c2 show ?thesis by blast
qed

text \<open>
  C1 as stated fails for an amount that is no whole number: the account exists, the
  statement is rejected, \<^verbatim>\<open>Transfer\<close> panics on the nil rows, there is no 200 response
  and no balance changes.
\<close>

theorem transfer_fraction_counterexample:
  "map Number (accounts bank) = [''acc-anna'', ''acc-bert'']
   \<and> route_transfer bank new_response (transfer_request ''acc-anna'' (1 / 2)) =
       Panic ''runtime error: invalid memory address or nil pointer dereference''"
  by code_simp

subsection \<open>Passwords\<close>

lemma bcrypt_key_prefix:
  assumes "NUL \<notin> set pw" and "length pw \<le> 72"
  shows "takeWhile (\<lambda>c. c \<noteq> NUL) (bcrypt_key pw) = pw"
proof -
  have "(72::nat) = Suc 71" by simp
  then have "replicate 72 (pw @ [NUL]) = (pw @ [NUL]) # replicate 71 (pw @ [NUL])"
    by (simp only: replicate_Suc)
  then have key: "bcrypt_key pw = take 72 (pw @ NUL # concat (replicate 71 (pw @ [NUL])))"
    by (simp add: bcrypt_key_def)
  have all: "\<forall>c\<in>set pw. c \<noteq> NUL" using assms(1) by auto
  show ?thesis
  proof (cases "length pw = 72")
    case True
    then have "bcrypt_key pw = pw" by (simp add: key)
    with all show ?thesis by simp
  next
    case False
    with assms(2) obtain k where k: "72 - length pw = Suc k"
      by (cases "72 - length pw") auto
    have "bcrypt_key pw = pw @ NUL # take k (concat (replicate 71 (pw @ [NUL])))"
      using assms(2) k by (simp add: key)
    with all show ?thesis by (simp add: takeWhile_append2)
  qed
qed

lemma bcrypt_key_long: "72 \<le> length pw \<Longrightarrow> bcrypt_key pw = take 72 pw"
proof -
  assume len: "72 \<le> length pw"
  have "(72::nat) = Suc 71" by simp
  then have "replicate 72 (pw @ [NUL]) = (pw @ [NUL]) # replicate 71 (pw @ [NUL])"
    by (simp only: replicate_Suc)
  with len show ?thesis by (simp add: bcrypt_key_def)
qed

lemma NewAccount_password:
  "NewAccount env firstName lastName pw = Inr a \<Longrightarrow>
   length pw \<le> 72 \<and> EncryptedPassword a = Bcrypt DefaultCost (fresh_salt env) (bcrypt_key pw)"
  by (auto simp: NewAccount_def GenerateFromPassword_def split: if_splits)

text \<open>
  C7 (as the code has it). For every account built by \<^verbatim>\<open>NewAccount(first, last, password)\<close>:
  \<^verbatim>\<open>ValidatePassword\<close> returns true for the original password, and for another password
  it returns true exactly when both give the same 72-byte Blowfish key. So it returns
  false for every other password when neither password contains a NUL byte and the other
  one is at most 72 bytes long.
\<close>

theorem validate_password_new_account:
  assumes "NewAccount env firstName lastName pw = Inr a"
  shows "ValidatePassword a pw
       \<and> ValidatePassword a pw' = (bcrypt_key pw' = bcrypt_key pw)
       \<and> (pw' \<noteq> pw \<and> NUL \<notin> set pw \<and> NUL \<notin> set pw' \<and> length pw' \<le> 72
            \<longrightarrow> \<not> ValidatePassword a pw')"
proof -
  note new = NewAccount_password [OF assms]
  then have iff: "ValidatePassword a p = (bcrypt_key p = bcrypt_key pw)" for p
    by (simp add: ValidatePassword_def CompareHashAndPassword_def)
  have "pw' = pw"
    if "bcrypt_key pw' = bcrypt_key pw" and "NUL \<notin> set pw" and "NUL \<notin> set pw'"
      and "length pw' \<le> 72"
  proof -
    from new have "length pw \<le> 72" by simp
    from bcrypt_key_prefix [OF that(2) this] bcrypt_key_prefix [OF that(3,4)] that(1)
    show ?thesis by simp
  qed
  with iff show ?thesis by auto
qed

theorem validate_password_new_account_witness:
  "NewAccount env0 ''Carl'' ''Cole'' ''secret'' =
     Inr \<lparr>ID = 0, FirstName = ''Carl'', LastName = ''Cole'', Number = ''acc-new'',
          EncryptedPassword = Bcrypt 10 ''salt-c'' (bcrypt_key ''secret''),
          Balance = 0, CreatedAt = 1000\<rparr>
   \<and> ValidatePassword \<lparr>ID = 0, FirstName = ''Carl'', LastName = ''Cole'', Number = ''acc-new'',
          EncryptedPassword = Bcrypt 10 ''salt-c'' (bcrypt_key ''secret''),
          Balance = 0, CreatedAt = 1000\<rparr> ''secret''
   \<and> ''Secret'' \<noteq> ''secret'' \<and> NUL \<notin> set ''secret'' \<and> NUL \<notin> set ''Secret''
   \<and> length ''Secret'' \<le> 72
   \<and> \<not> ValidatePassword \<lparr>ID = 0, FirstName = ''Carl'', LastName = ''Cole'', Number = ''acc-new'',
          EncryptedPassword = Bcrypt 10 ''salt-c'' (bcrypt_key ''secret''),
          Balance = 0, CreatedAt = 1000\<rparr> ''Secret''"
proof -
  have n: "NewAccount env0 ''Carl'' ''Cole'' ''secret'' =
     Inr \<lparr>ID = 0, FirstName = ''Carl'', LastName = ''Cole'', Number = ''acc-new'',
          EncryptedPassword = Bcrypt 10 ''salt-c'' (bcrypt_key ''secret''),
          Balance = 0, CreatedAt = 1000\<rparr>"
    by (simp add: NewAccount_def GenerateFromPassword_def env0_def DefaultCost_def)
  have h: "''Secret'' \<noteq> ''secret''" "NUL \<notin> set ''secret''" "NUL \<notin> set ''Secret''"
    "length ''Secret'' \<le> 72"
    by (simp_all add: NUL_def)
  note t = validate_password_new_account [OF n, of "''Secret''"]
  from t h
  have v: "ValidatePassword \<lparr>ID = 0, FirstName = ''Carl'', LastName = ''Cole'', Number = ''acc-new'',
          EncryptedPassword = Bcrypt 10 ''salt-c'' (bcrypt_key ''secret''),
          Balance = 0, CreatedAt = 1000\<rparr> ''secret''"
    and w: "\<not> ValidatePassword \<lparr>ID = 0, FirstName = ''Carl'', LastName = ''Cole'', Number = ''acc-new'',
          EncryptedPassword = Bcrypt 10 ''salt-c'' (bcrypt_key ''secret''),
          Balance = 0, CreatedAt = 1000\<rparr> ''Secret''"
    by blast+
  from n v h w show ?thesis by (intro conjI)
qed

text \<open>
  C7 as stated fails: an account created with a password of 72 bytes accepts that
  password followed by any further byte, and an account created with the password
  \<^verbatim>\<open>a\<close> accepts the three bytes \<^verbatim>\<open>a\<close>, NUL, \<^verbatim>\<open>a\<close>.
\<close>

theorem validate_password_counterexample:
  "(case NewAccount env0 ''Carl'' ''Cole'' (replicate 72 (CHR ''x'')) of
      Inl err \<Rightarrow> False
    | Inr a \<Rightarrow> replicate 73 (CHR ''x'') \<noteq> replicate 72 (CHR ''x'')
              \<and> ValidatePassword a (replicate 73 (CHR ''x'')))
   \<and> (case NewAccount env0 ''Carl'' ''Cole'' ''a'' of
      Inl err \<Rightarrow> False
    | Inr a \<Rightarrow> [CHR ''a'', NUL, CHR ''a''] \<noteq> ''a''
              \<and> ValidatePassword a [CHR ''a'', NUL, CHR ''a''])"
proof -
  have ne: "replicate 73 (CHR ''x'') \<noteq> replicate 72 (CHR ''x'')"
    by (simp add: replicate_eq_replicate)
  have long: "case NewAccount env0 ''Carl'' ''Cole'' (replicate 72 (CHR ''x'')) of
      Inl err \<Rightarrow> False
    | Inr a \<Rightarrow> replicate 73 (CHR ''x'') \<noteq> replicate 72 (CHR ''x'')
              \<and> ValidatePassword a (replicate 73 (CHR ''x''))"
    using ne
    by (simp add: NewAccount_def GenerateFromPassword_def ValidatePassword_def
        CompareHashAndPassword_def bcrypt_key_long)
  have nul: "case NewAccount env0 ''Carl'' ''Cole'' ''a'' of
      Inl err \<Rightarrow> False
    | Inr a \<Rightarrow> [CHR ''a'', NUL, CHR ''a''] \<noteq> ''a''
              \<and> ValidatePassword a [CHR ''a'', NUL, CHR ''a'']"
    by code_simp
  from long nul show ?thesis by (rule conjI)
qed

subsection \<open>Issued tokens\<close>

lemma createJWT_token:
  "createJWT env acc =
     Inr (Encoded ''HS256''
            [(''accountNumber'', CStr (Number acc)), (''exp'', CNum (of_int (clock env + 60)))]
            (HMAC ''HS256'' (JWT_SECRET env)
               [(''accountNumber'', CStr (Number acc)), (''exp'', CNum (of_int (clock env + 60)))]))"
  by (simp add: createJWT_def Let_def)

lemma validate_issued_token:
  assumes "clock env + 60 \<noteq> 0"
  shows "validateJWT (env\<lparr>clock := t\<rparr>)
           (Encoded ''HS256''
              [(''accountNumber'', CStr n), (''exp'', CNum (of_int (clock env + 60)))]
              (HMAC ''HS256'' (JWT_SECRET env)
                 [(''accountNumber'', CStr n), (''exp'', CNum (of_int (clock env + 60)))])) =
         (if t < clock env + 60
          then Inr \<lparr>Token_Method = ''HS256'',
                    Token_Claims = [(''accountNumber'', CStr n),
                                    (''exp'', CNum (of_int (clock env + 60)))],
                    Token_Valid = True\<rparr>
          else Inl ''Token is expired'')"
proof -
  have "of_int (clock env + 60) \<noteq> (0::rat)"
    using assms by (simp only: of_int_eq_0_iff) simp
  moreover have "numeric_date (of_int (clock env + 60)) = clock env + 60"
    by (simp only: numeric_date_def floor_of_int)
  ultimately show ?thesis
    by (simp add: validateJWT_def jwt_Parse_def registered_methods_def SigningMethodHMAC_def
        claims_Valid_def VerifyExpiresAt_def VerifyIssuedAt_def VerifyNotBefore_def)
qed

lemma handleLogin_ok:
  assumes "Body r = Inr \<lparr>login_Number = n, login_Password = p\<rparr>"
    and "GetAccountByNumber s n = Inr acc" and "ValidatePassword acc p"
  shows "makeHandleFunc (handleLogin env) s new_response r =
           Done (\<lparr>status = 200, header = [(''Content-Type'', ''application/json'')],
                   body = [JObject [(''number'', JString (Number acc)),
                                    (''token'', JToken (Encoded ''HS256''
            [(''accountNumber'', CStr (Number acc)), (''exp'', CNum (of_int (clock env + 60)))]
            (HMAC ''HS256'' (JWT_SECRET env)
               [(''accountNumber'', CStr (Number acc)),
                (''exp'', CNum (of_int (clock env + 60)))])))]]\<rparr>, s)"
  using assms
  by (simp add: makeHandleFunc_def handleLogin_def createJWT_token LoginResponse_def http_defs)

text \<open>
  C8. The token issued at login for an account carries the account's number as the
  claim \<^verbatim>\<open>accountNumber\<close> and the expiry \<^verbatim>\<open>exp\<close> of 60 seconds after issuance; under the
  same secret its verification succeeds at every time before the expiry and fails at
  the expiry and at every time after it. (The clock is in Unix seconds and the expiry is
  not the second 0, which the library reads as no expiry.)
\<close>

theorem issued_token_valid_until_expiry:
  assumes "clock env + 60 \<noteq> 0"
    and "Body r = Inr \<lparr>login_Number = n, login_Password = p\<rparr>"
    and "GetAccountByNumber s n = Inr acc" and "ValidatePassword acc p"
    and "issued = Encoded ''HS256''
            [(''accountNumber'', CStr (Number acc)), (''exp'', CNum (of_int (clock env + 60)))]
            (HMAC ''HS256'' (JWT_SECRET env)
               [(''accountNumber'', CStr (Number acc)), (''exp'', CNum (of_int (clock env + 60)))])"
  shows "createJWT env acc = Inr issued
       \<and> makeHandleFunc (handleLogin env) s new_response r =
           Done (\<lparr>status = 200, header = [(''Content-Type'', ''application/json'')],
                   body = [JObject [(''number'', JString (Number acc)),
                                    (''token'', JToken issued)]]\<rparr>, s)
       \<and> (t < clock env + 60 \<longrightarrow>
            validateJWT (env\<lparr>clock := t\<rparr>) issued =
              Inr \<lparr>Token_Method = ''HS256'',
                   Token_Claims = [(''accountNumber'', CStr (Number acc)),
                                   (''exp'', CNum (of_int (clock env + 60)))],
                   Token_Valid = True\<rparr>)
       \<and> (clock env + 60 \<le> t \<longrightarrow>
            validateJWT (env\<lparr>clock := t\<rparr>) issued = Inl ''Token is expired'')"
  using createJWT_token [of env acc] handleLogin_ok [OF assms(2-4), of env]
    validate_issued_token [OF assms(1), of t "Number acc"]
  unfolding assms(5) by simp

theorem issued_token_valid_until_expiry_witness:
  "clock env0 + 60 \<noteq> 0
   \<and> Body (login_request ''acc-anna'' ''secret'') =
       Inr \<lparr>login_Number = ''acc-anna'', login_Password = ''secret''\<rparr>
   \<and> GetAccountByNumber bank ''acc-anna'' = Inr anna \<and> ValidatePassword anna ''secret''
   \<and> createJWT env0 anna = Inr anna_token
   \<and> makeHandleFunc (handleLogin env0) bank new_response (login_request ''acc-anna'' ''secret'') =
       Done (\<lparr>status = 200, header = [(''Content-Type'', ''application/json'')],
               body = [JObject [(''number'', JString ''acc-anna''),
                                (''token'', JToken anna_token)]]\<rparr>, bank)
   \<and> validateJWT (env0\<lparr>clock := 1059\<rparr>) anna_token =
       Inr \<lparr>Token_Method = ''HS256'',
            Token_Claims = [(''accountNumber'', CStr ''acc-anna''), (''exp'', CNum 1060)],
            Token_Valid = True\<rparr>
   \<and> validateJWT (env0\<lparr>clock := 1060\<rparr>) anna_token = Inl ''Token is expired''"
proof -
  have h1: "clock env0 + 60 \<noteq> 0" by (simp add: env0_def)
  have h2: "Body (login_request ''acc-anna'' ''secret'') =
       Inr \<lparr>login_Number = ''acc-anna'', login_Password = ''secret''\<rparr>"
    by (simp add: login_request_def)
  have h3: "GetAccountByNumber bank ''acc-anna'' = Inr anna" by code_simp
  have h4: "ValidatePassword anna ''secret''"
    by (simp add: ValidatePassword_def CompareHashAndPassword_def anna_def)
  have h5: "anna_token = Encoded ''HS256''
            [(''accountNumber'', CStr (Number anna)), (''exp'', CNum (of_int (clock env0 + 60)))]
            (HMAC ''HS256'' (JWT_SECRET env0)
               [(''accountNumber'', CStr (Number anna)), (''exp'', CNum (of_int (clock env0 + 60)))])"
    by (simp add: anna_token_def anna_def env0_def)
  have n: "Number anna = ''acc-anna''" "clock env0 = 1000" "of_int (1060 :: int) = (1060 :: rat)"
    by (simp_all add: anna_def env0_def)
  note t1 = issued_token_valid_until_expiry [OF h1 h2 h3 h4 h5, of 1059]
  note t2 = issued_token_valid_until_expiry [OF h1 h2 h3 h4 h5, of 1060]
  from t1 n have a: "createJWT env0 anna = Inr anna_token"
    and b: "makeHandleFunc (handleLogin env0) bank new_response (login_request ''acc-anna'' ''secret'') =
       Done (\<lparr>status = 200, header = [(''Content-Type'', ''application/json'')],
               body = [JObject [(''number'', JString ''acc-anna''),
                                (''token'', JToken anna_token)]]\<rparr>, bank)"
    and c: "validateJWT (env0\<lparr>clock := 1059\<rparr>) anna_token =
       Inr \<lparr>Token_Method = ''HS256'',
            Token_Claims = [(''accountNumber'', CStr ''acc-anna''), (''exp'', CNum 1060)],
            Token_Valid = True\<rparr>"
    by simp_all
  from t2 n have d: "validateJWT (env0\<lparr>clock := 1060\<rparr>) anna_token = Inl ''Token is expired''"
    by simp
  from h1 h2 h3 h4 a b c d show ?thesis by (intro conjI)
qed

subsection \<open>The account number\<close>














subsection \<open>The stored credential\<close>

lemma Account_json_credential: "Account_json (a\<lparr>EncryptedPassword := h\<rparr>) = Account_json a"
  by (simp add: Account_json_def)

lemma makeHandleFunc_visible:
  "visible (f s w r) = visible (f' s' w r') \<Longrightarrow>
   response (makeHandleFunc f s w r) = response (makeHandleFunc f' s' w r')"
  by (cases "f s w r"; cases "f' s' w r'")
    (auto simp: visible_def response_def makeHandleFunc_def split: option.splits)

lemma Methods_response:
  "Method r = Method r' \<Longrightarrow> response (h s w r) = response (h' s' w r') \<Longrightarrow>
   response (Methods ms h s w r) = response (Methods ms h' s' w r')"
  by (simp add: Methods_def response_def)

lemma filter_rehash:
  assumes "\<And>a h. P (a\<lparr>EncryptedPassword := h\<rparr>) = P a"
  shows "filter P (map (\<lambda>a. a\<lparr>EncryptedPassword := g a\<rparr>) xs) =
         map (\<lambda>a. a\<lparr>EncryptedPassword := g a\<rparr>) (filter P xs)"
  by (induction xs) (simp_all add: assms)

lemma GetAccounts_rehash:
  "GetAccounts (rehash g s) =
     (case GetAccounts s of
        Inl err \<Rightarrow> Inl err
      | Inr accs \<Rightarrow> Inr (map (\<lambda>a. a\<lparr>EncryptedPassword := g a\<rparr>) accs))"
  by (simp add: GetAccounts_def Query_select_def scan_rows_all rehash_def split: option.splits)

lemma GetAccountByID_rehash:
  "GetAccountByID (rehash g s) i =
     (case GetAccountByID s i of
        Inl err \<Rightarrow> Inl err
      | Inr a \<Rightarrow> Inr (a\<lparr>EncryptedPassword := g a\<rparr>))"
proof -
  have "filter (\<lambda>r. ID r = i) (map (\<lambda>a. a\<lparr>EncryptedPassword := g a\<rparr>) (accounts s)) =
        map (\<lambda>a. a\<lparr>EncryptedPassword := g a\<rparr>) (filter (\<lambda>r. ID r = i) (accounts s))"
    by (rule filter_rehash) simp
  then show ?thesis
    by (simp add: GetAccountByID_def Query_select_id_def scanIntoAccount_def rehash_def
        split: option.splits list.splits)
qed

lemma GetAccountByNumber_rehash:
  "GetAccountByNumber (rehash g s) n =
     (case GetAccountByNumber s n of
        Inl err \<Rightarrow> Inl err
      | Inr a \<Rightarrow> Inr (a\<lparr>EncryptedPassword := g a\<rparr>))"
proof -
  have "filter (\<lambda>r. Number r = n) (map (\<lambda>a. a\<lparr>EncryptedPassword := g a\<rparr>) (accounts s)) =
        map (\<lambda>a. a\<lparr>EncryptedPassword := g a\<rparr>) (filter (\<lambda>r. Number r = n) (accounts s))"
    by (rule filter_rehash) simp
  then show ?thesis
    by (simp add: GetAccountByNumber_def Query_select_number_def scanIntoAccount_def rehash_def
        split: option.splits list.splits)
qed

lemma GetAccountByNumber_member:
  assumes "GetAccountByNumber s n = Inr a"
  shows "a \<in> set (accounts s)"
proof (cases "filter (\<lambda>r. Number r = n) (accounts s)")
  case Nil
  with assms show ?thesis
    by (simp add: GetAccountByNumber_def Query_select_number_def
        split: option.splits if_splits)
next
  case (Cons b bs)
  with assms have "b = a"
    by (simp add: GetAccountByNumber_def Query_select_number_def scanIntoAccount_def
        split: option.splits if_splits)
  with Cons have "a \<in> set (filter (\<lambda>r. Number r = n) (accounts s))" by simp
  then show ?thesis by simp
qed

lemma handleGetAccounts_rehash:
  "visible (handleGetAccounts (rehash g s) w r) = visible (handleGetAccounts s w r')"
  by (simp add: handleGetAccounts_def GetAccounts_rehash visible_def written_def
      Account_json_credential comp_def split: sum.splits)

lemma DeleteAccount_rehash:
  "(case DeleteAccount (rehash g s) i of Done (res, s') \<Rightarrow> Done res | Panic p \<Rightarrow> Panic p) =
   (case DeleteAccount s i of Done (res, s') \<Rightarrow> Done res | Panic p \<Rightarrow> Panic p)"
proof -
  have "filter (\<lambda>r. ID r = i) (map (\<lambda>a. a\<lparr>EncryptedPassword := g a\<rparr>) (accounts s)) =
        map (\<lambda>a. a\<lparr>EncryptedPassword := g a\<rparr>) (filter (\<lambda>r. ID r = i) (accounts s))"
    by (rule filter_rehash) simp
  then show ?thesis
    by (simp add: DeleteAccount_def Query_delete_def rehash_def comp_def
        split: option.splits list.splits)
qed

lemma handleAccountById_rehash:
  assumes "Method r = Method r'" and "Vars_id r = Vars_id r'"
  shows "visible (handleAccountById (rehash g s) w r) = visible (handleAccountById s w r')"
proof -
  have id: "getID r = getID r'" by (simp only: getID_def assms(2))
  show ?thesis
  proof (cases "getID r'")
    case (Inl e)
    with id assms show ?thesis by (simp add: handleAccountById_def visible_def)
  next
    case (Inr i)
    show ?thesis
    proof (cases "Method r' = ''GET''")
      case True
      with id Inr assms show ?thesis
        by (simp add: handleAccountById_def visible_def written_def GetAccountByID_rehash
            Account_json_credential split: sum.splits)
    next
      case False
      show ?thesis
        using DeleteAccount_rehash [of g s i] id Inr assms False
        by (cases "DeleteAccount (rehash g s) i"; cases "DeleteAccount s i")
          (auto simp: handleAccountById_def visible_def written_def split: option.splits)
    qed
  qed
qed

lemma CreateAccount_rehash: "fst (CreateAccount (rehash g s) acc) = fst (CreateAccount s acc)"
  by (simp add: CreateAccount_def Query_insert_def rehash_def split: option.splits)

lemma CreateAccount_credential:
  "fst (CreateAccount s (acc\<lparr>EncryptedPassword := h\<rparr>)) = fst (CreateAccount s acc)"
  by (simp add: CreateAccount_def Query_insert_def split: option.splits)

lemma handleCreateAccount_rehash:
  assumes "Body r = Body r'"
  shows "visible (handleCreateAccount env (rehash g s) w r) = visible (handleCreateAccount env s w r')"
proof (cases "Body r'")
  case (Inl e)
  with assms show ?thesis by (simp add: handleCreateAccount_def visible_def)
next
  case (Inr req)
  show ?thesis
  proof (cases "NewAccount env (req_FirstName req) (req_LastName req) (req_Password req)")
    case (Inl e)
    with Inr assms show ?thesis by (simp add: handleCreateAccount_def visible_def)
  next
    case a: (Inr a)
    obtain e1 s1 where c1: "CreateAccount (rehash g s) a = (e1, s1)"
      by (cases "CreateAccount (rehash g s) a")
    obtain e2 s2 where c2: "CreateAccount s a = (e2, s2)"
      by (cases "CreateAccount s a")
    from CreateAccount_rehash [of g s a] c1 c2 have "e1 = e2" by simp
    with Inr a c1 c2 assms show ?thesis
      by (simp add: handleCreateAccount_def visible_def written_def split: option.splits)
  qed
qed

lemma NewAccount_salt:
  "NewAccount (env\<lparr>fresh_salt := x\<rparr>) f l p =
     (case NewAccount env f l p of
        Inl err \<Rightarrow> Inl err
      | Inr a \<Rightarrow> Inr (a\<lparr>EncryptedPassword := Bcrypt DefaultCost x (bcrypt_key p)\<rparr>))"
  by (simp add: NewAccount_def GenerateFromPassword_def)

lemma handleCreateAccount_salt:
  "visible (handleCreateAccount (env\<lparr>fresh_salt := x\<rparr>) s w r) =
   visible (handleCreateAccount env s w r)"
proof (cases "Body r")
  case (Inl e)
  then show ?thesis by (simp add: handleCreateAccount_def visible_def)
next
  case (Inr req)
  show ?thesis
  proof (cases "NewAccount env (req_FirstName req) (req_LastName req) (req_Password req)")
    case (Inl e)
    with Inr show ?thesis by (simp add: handleCreateAccount_def visible_def NewAccount_salt)
  next
    case a: (Inr a)
    obtain e1 s1 where c1: "CreateAccount s
        (a\<lparr>EncryptedPassword := Bcrypt DefaultCost x (bcrypt_key (req_Password req))\<rparr>) = (e1, s1)"
      by (cases "CreateAccount s
        (a\<lparr>EncryptedPassword := Bcrypt DefaultCost x (bcrypt_key (req_Password req))\<rparr>)")
    obtain e2 s2 where c2: "CreateAccount s a = (e2, s2)"
      by (cases "CreateAccount s a")
    from CreateAccount_credential [where s = s and acc = a
        and h = "Bcrypt DefaultCost x (bcrypt_key (req_Password req))"] c1 c2
    have "e1 = e2" by simp
    with Inr a c1 c2 show ?thesis
      by (simp add: handleCreateAccount_def visible_def NewAccount_salt written_def
          Account_json_credential split: option.splits)
  qed
qed

lemma handleLogin_rehash:
  assumes "\<forall>a\<in>set (accounts s). \<forall>req. Body r = Inr req \<longrightarrow>
             ValidatePassword (a\<lparr>EncryptedPassword := g a\<rparr>) (login_Password req) =
             ValidatePassword a (login_Password req)"
  shows "visible (handleLogin env (rehash g s) w r) = visible (handleLogin env s w r)"
proof (cases "Body r")
  case (Inl e)
  then show ?thesis by (simp add: handleLogin_def visible_def)
next
  case (Inr req)
  show ?thesis
  proof (cases "GetAccountByNumber s (login_Number req)")
    case (Inl e)
    with Inr show ?thesis
      by (simp add: handleLogin_def visible_def GetAccountByNumber_rehash)
  next
    case a: (Inr a)
    from GetAccountByNumber_member [OF a] assms Inr
    have "ValidatePassword (a\<lparr>EncryptedPassword := g a\<rparr>) (login_Password req) =
          ValidatePassword a (login_Password req)"
      by blast
    with Inr a show ?thesis
      by (simp add: handleLogin_def visible_def GetAccountByNumber_rehash createJWT_token
          written_def)
  qed
qed

lemma handleAccount_rehash:
  "visible (handleAccount env (rehash g s) w r) = visible (handleAccount env s w r)"
  using handleGetAccounts_rehash [where g = g and s = s and w = w and r = r and r' = r]
    handleCreateAccount_rehash [where r = r and r' = r and env = env and g = g and s = s and w = w]
  by (simp add: handleAccount_def visible_def)

lemma handleAccount_salt:
  "visible (handleAccount (env\<lparr>fresh_salt := x\<rparr>) s w r) = visible (handleAccount env s w r)"
  using handleCreateAccount_salt [where env = env and x = x and s = s and w = w and r = r]
  by (simp add: handleAccount_def)

lemma withJWTAuth_rehash:
  assumes "response (h (rehash g s) w r) = response (h s w r)"
  shows "response (withJWTAuth h env (rehash g s) w r) = response (withJWTAuth h env s w r)"
proof (cases "validateJWT env (Header_jwt r)")
  case (Inl e)
  then show ?thesis by (simp add: withJWTAuth_def response_def)
next
  case tok: (Inr tok)
  show ?thesis
  proof (cases "getID r")
    case (Inl e)
    with tok show ?thesis by (simp add: withJWTAuth_def response_def)
  next
    case i: (Inr i)
    show ?thesis
    proof (cases "GetAccountByID s i")
      case (Inl e)
      with tok i show ?thesis
        by (simp add: withJWTAuth_def response_def GetAccountByID_rehash)
    next
      case (Inr a)
      with tok i assms show ?thesis
        by (simp add: withJWTAuth_def response_def GetAccountByID_rehash)
    qed
  qed
qed

text \<open>
  C5. The hashed credential of an account is in no JSON response of account creation,
  listing, get-by-id and login: the encoding of an account does not read
  \<open>EncryptedPassword\<close>, and the response of each of these routes stays the same when the
  stored credentials are replaced by any others (for login: by any others under which
  the request's password is accepted for the same accounts) and, for creation, when the
  new account's credential is computed with another salt.
\<close>

theorem credential_never_serialized:
  "Account_json (a\<lparr>EncryptedPassword := h\<rparr>) = Account_json a
   \<and> response (route_accounts env (rehash g s) w r) = response (route_accounts env s w r)
   \<and> response (route_accounts (env\<lparr>fresh_salt := x\<rparr>) s w r) = response (route_accounts env s w r)
   \<and> response (route_accounts_id env (rehash g s) w r1) = response (route_accounts_id env s w r1)
   \<and> ((\<forall>a\<in>set (accounts s). \<forall>req. Body r2 = Inr req \<longrightarrow>
          ValidatePassword (a\<lparr>EncryptedPassword := g a\<rparr>) (login_Password req) =
          ValidatePassword a (login_Password req)) \<longrightarrow>
        response (route_login env (rehash g s) w r2) = response (route_login env s w r2))"
proof -
  have accounts: "response (route_accounts env (rehash g s) w r) =
                  response (route_accounts env s w r)"
    unfolding route_accounts_def
    by (intro Methods_response makeHandleFunc_visible handleAccount_rehash refl)
  have salt: "response (route_accounts (env\<lparr>fresh_salt := x\<rparr>) s w r) =
              response (route_accounts env s w r)"
    unfolding route_accounts_def
    by (intro Methods_response makeHandleFunc_visible handleAccount_salt refl)
  have by_id: "response (route_accounts_id env (rehash g s) w r1) =
               response (route_accounts_id env s w r1)"
    unfolding route_accounts_id_def
    by (intro Methods_response withJWTAuth_rehash makeHandleFunc_visible
        handleAccountById_rehash refl)
  have login: "response (route_login env (rehash g s) w r2) = response (route_login env s w r2)"
    if "\<forall>a\<in>set (accounts s). \<forall>req. Body r2 = Inr req \<longrightarrow>
          ValidatePassword (a\<lparr>EncryptedPassword := g a\<rparr>) (login_Password req) =
          ValidatePassword a (login_Password req)"
    unfolding route_login_def
    by (intro Methods_response makeHandleFunc_visible handleLogin_rehash that refl)
  from Account_json_credential [where a = a and h = h] accounts salt by_id login show ?thesis
    by (intro conjI impI)
qed

theorem credential_never_serialized_witness:
  "ValidatePassword (anna\<lparr>EncryptedPassword := resalt anna\<rparr>) ''secret'' =
     ValidatePassword anna ''secret''
   \<and> ValidatePassword (bert\<lparr>EncryptedPassword := resalt bert\<rparr>) ''secret'' =
     ValidatePassword bert ''secret''
   \<and> EncryptedPassword anna \<noteq> resalt anna
   \<and> response (route_login env0 (rehash resalt bank) new_response
        (login_request ''acc-anna'' ''secret'')) =
      Done \<lparr>status = 200, header = [(''Content-Type'', ''application/json'')],
             body = [JObject [(''number'', JString ''acc-anna''), (''token'', JToken anna_token)]]\<rparr>
   \<and> response (route_accounts env0 (rehash resalt bank) new_response listing) =
      Done \<lparr>status = 200, header = [(''Content-Type'', ''application/json'')],
             body = [JArray [Account_json anna, Account_json bert]]\<rparr>"
proof -
  have v1: "ValidatePassword (anna\<lparr>EncryptedPassword := resalt anna\<rparr>) ''secret'' =
     ValidatePassword anna ''secret''"
    and v2: "ValidatePassword (bert\<lparr>EncryptedPassword := resalt bert\<rparr>) ''secret'' =
     ValidatePassword bert ''secret''"
    and ne: "EncryptedPassword anna \<noteq> resalt anna"
    by (simp_all add: ValidatePassword_def CompareHashAndPassword_def resalt_def anna_def bert_def)
  have hyp: "\<forall>a\<in>set (accounts bank). \<forall>req. Body (login_request ''acc-anna'' ''secret'') = Inr req \<longrightarrow>
          ValidatePassword (a\<lparr>EncryptedPassword := resalt a\<rparr>) (login_Password req) =
          ValidatePassword a (login_Password req)"
    using v1 v2 by (auto simp: bank_def login_request_def)
  have l0: "response (route_login env0 bank new_response (login_request ''acc-anna'' ''secret'')) =
      Done \<lparr>status = 200, header = [(''Content-Type'', ''application/json'')],
             body = [JObject [(''number'', JString ''acc-anna''), (''token'', JToken anna_token)]]\<rparr>"
    by code_simp
  have a0: "response (route_accounts env0 bank new_response listing) =
      Done \<lparr>status = 200, header = [(''Content-Type'', ''application/json'')],
             body = [JArray [Account_json anna, Account_json bert]]\<rparr>"
    by code_simp
  note t = credential_never_serialized [where g = resalt and s = bank and env = env0
      and w = new_response and r = listing and ?r2.0 = "login_request ''acc-anna'' ''secret''"]
  from t hyp l0
  have l1: "response (route_login env0 (rehash resalt bank) new_response
        (login_request ''acc-anna'' ''secret'')) =
      Done \<lparr>status = 200, header = [(''Content-Type'', ''application/json'')],
             body = [JObject [(''number'', JString ''acc-anna''), (''token'', JToken anna_token)]]\<rparr>"
    by metis
  from t a0
  have a1: "response (route_accounts env0 (rehash resalt bank) new_response listing) =
      Done \<lparr>status = 200, header = [(''Content-Type'', ''application/json'')],
             body = [JArray [Account_json anna, Account_json bert]]\<rparr>"
    by metis
  from v1 v2 ne l1 a1 show ?thesis by (intro conjI)
qed

end
